theory Spec2Isabelle
  imports Complex_Main
begin

section \<open>Python exceptions\<close>

text \<open>
  Every exception the modelled code can raise is a value. Floats are modelled as
  real numbers (exact arithmetic, rounding of binary64 is not modelled); a float that
  may be NaN is a \<open>real option\<close> with \<open>None\<close> for NaN.
\<close>

datatype error =
    UnexpectedInput string
  | ValueError
  | TypeError
  | AttributeError
  | NoVisitMethod
  | UnboundLocalError
  | ZeroDivisionError
  | IndexError
  | KeyError string
  | Unmodelled

section \<open>backtest.py: the simulation loop of run_backtest\<close>

text \<open>
  A row of the data frame as the loop reads it: the columns Date and close, and the two
  signal columns that run_backtest attaches before the loop. The calls to print are not
  modelled in this section.
\<close>

type_synonym date = nat

record row =
  Date :: date
  close :: real
  entry_signal :: bool
  exit_signal :: bool

text \<open>The dictionary appended to trades; the field names are the keys, prefixed.\<close>

record trade =
  t_entry_date :: date
  t_exit_date :: date
  t_entry_price :: real
  t_exit_price :: real
  t_profit :: real

text \<open>
  The local variables of the simulation. entry_date is not assigned before the first
  buy: \<open>None\<close> is the unbound local, and reading it raises UnboundLocalError.
\<close>

record sim =
  holding :: bool
  equity :: real
  entry_price :: real
  entry_date :: "date option"
  trades :: "trade list"
  equity_curve :: "real list"
  peak_equity :: real
  max_drawdown :: real

definition init_sim :: "real \<Rightarrow> sim" where
  "init_sim initial_capital =
     \<lparr>holding = False, equity = initial_capital, entry_price = 0, entry_date = None,
      trades = [], equity_curve = [], peak_equity = initial_capital, max_drawdown = 0\<rparr>"

text \<open>Lines 61-68: sell at the closing price on an exit signal while holding.\<close>

definition sell_step :: "sim \<Rightarrow> row \<Rightarrow> error + sim" where
  "sell_step s r =
     (if exit_signal r \<and> holding s then
        (let exit_price = close r;
             profit = exit_price - entry_price s
         in case entry_date s of
              None \<Rightarrow> Inl UnboundLocalError
            | Some d \<Rightarrow>
                Inr (s\<lparr>equity := equity s + profit,
                       trades := trades s @
                         [\<lparr>t_entry_date = d, t_exit_date = Date r,
                           t_entry_price = entry_price s, t_exit_price = exit_price,
                           t_profit = profit\<rparr>],
                       holding := False,
                       entry_price := 0\<rparr>))
      else Inr s)"

text \<open>Lines 71-75: buy at the closing price on an entry signal while not holding.\<close>

definition buy_step :: "sim \<Rightarrow> row \<Rightarrow> sim" where
  "buy_step s r =
     (if entry_signal r \<and> \<not> holding s then
        s\<lparr>entry_price := close r, entry_date := Some (Date r), holding := True\<rparr>
      else s)"

text \<open>Lines 78-86: equity curve, running peak and drawdown.\<close>

definition mark_step :: "sim \<Rightarrow> row \<Rightarrow> error + sim" where
  "mark_step s r =
     (let current_value = equity s + (if holding s then close r - entry_price s else 0);
          peak = (if current_value > peak_equity s then current_value else peak_equity s)
      in if peak = 0 then Inl ZeroDivisionError
         else
           (let drawdown = (peak - current_value) / peak
            in Inr (s\<lparr>equity_curve := equity_curve s @ [current_value],
                      peak_equity := peak,
                      max_drawdown :=
                        (if drawdown > max_drawdown s then drawdown else max_drawdown s)\<rparr>)))"

text \<open>The body of the for loop, lines 59-86.\<close>

definition bar :: "sim \<Rightarrow> row \<Rightarrow> error + sim" where
  "bar s r =
     (case sell_step s r of
        Inl e \<Rightarrow> Inl e
      | Inr s1 \<Rightarrow> mark_step (buy_step s1 r) r)"

fun simulate :: "sim \<Rightarrow> row list \<Rightarrow> error + sim" where
  "simulate s [] = Inr s"
| "simulate s (r # rs) =
     (case bar s r of Inl e \<Rightarrow> Inl e | Inr s' \<Rightarrow> simulate s' rs)"

text \<open>Lines 89-94: a position still open after the last row is closed at its close.\<close>

definition close_final :: "sim \<Rightarrow> row list \<Rightarrow> error + sim" where
  "close_final s rows =
     (if holding s then
        (case rows of
           [] \<Rightarrow> Inl IndexError
         | _ \<Rightarrow>
           (let final_price = close (last rows);
                profit = final_price - entry_price s
            in case entry_date s of
                 None \<Rightarrow> Inl UnboundLocalError
               | Some d \<Rightarrow>
                   Inr (s\<lparr>equity := equity s + profit,
                          trades := trades s @
                            [\<lparr>t_entry_date = d, t_exit_date = Date (last rows),
                              t_entry_price = entry_price s, t_exit_price = final_price,
                              t_profit = profit\<rparr>]\<rparr>)))
      else Inr s)"

text \<open>The results dictionary; three keys are prefixed to keep them apart from the locals.\<close>

record report =
  initial_capital :: real
  final_equity :: real
  total_profit :: real
  profit_percent :: real
  report_max_drawdown :: real
  num_trades :: nat
  num_wins :: nat
  win_rate :: real
  report_trades :: "trade list"
  report_equity_curve :: "real list"

text \<open>Lines 98-117: the performance figures.\<close>

definition performance :: "real \<Rightarrow> sim \<Rightarrow> error + report" where
  "performance capital s =
     (let final = equity s;
          total = final - capital
      in if capital = 0 then Inl ZeroDivisionError
         else
           (let n = length (trades s);
                wins = filter (\<lambda>t. t_profit t > 0) (trades s)
            in Inr \<lparr>initial_capital = capital,
                    final_equity = final,
                    total_profit = total,
                    profit_percent = (total / capital) * 100,
                    report_max_drawdown = max_drawdown s,
                    num_trades = n,
                    num_wins = length wins,
                    win_rate = (if n > 0 then (real (length wins) / real n) * 100 else 0),
                    report_trades = trades s,
                    report_equity_curve = equity_curve s\<rparr>))"

definition run_backtest :: "row list \<Rightarrow> real \<Rightarrow> error + report" where
  "run_backtest rows capital =
     (case simulate (init_sim capital) rows of
        Inl e \<Rightarrow> Inl e
      | Inr s \<Rightarrow>
          (case close_final s rows of
             Inl e \<Rightarrow> Inl e
           | Inr s' \<Rightarrow> performance capital s'))"

subsection \<open>Example tables\<close>

text \<open>
  Closes 10, 11, 9, 12, 8 with an entry signal on the first row and an exit signal on
  the third.
\<close>

definition spec_example_rows :: "row list" where
  "spec_example_rows =
     [\<lparr>Date = 0, close = 10, entry_signal = True, exit_signal = False\<rparr>,
      \<lparr>Date = 1, close = 11, entry_signal = False, exit_signal = False\<rparr>,
      \<lparr>Date = 2, close = 9, entry_signal = False, exit_signal = True\<rparr>,
      \<lparr>Date = 3, close = 12, entry_signal = False, exit_signal = False\<rparr>,
      \<lparr>Date = 4, close = 8, entry_signal = False, exit_signal = False\<rparr>]"

text \<open>A position bought at 20000 that is worth 1 on the next row.\<close>

definition crash_rows :: "row list" where
  "crash_rows =
     [\<lparr>Date = 0, close = 20000, entry_signal = True, exit_signal = False\<rparr>,
      \<lparr>Date = 1, close = 1, entry_signal = False, exit_signal = False\<rparr>]"

text \<open>One buy, followed by a row on which both signals are true.\<close>

definition reopen_rows :: "row list" where
  "reopen_rows =
     [\<lparr>Date = 0, close = 10, entry_signal = True, exit_signal = False\<rparr>]"

definition reopen_row :: row where
  "reopen_row = \<lparr>Date = 1, close = 12, entry_signal = True, exit_signal = True\<rparr>"

text \<open>
  What holds of the locals after any number of rows when the initial capital is
  positive: a held position has its entry date bound, the peak never falls below the
  capital, and the drawdown is a fraction of the peak.
\<close>

definition reachable_inv :: "real \<Rightarrow> sim \<Rightarrow> bool" where
  "reachable_inv cap s \<longleftrightarrow>
     (holding s \<longrightarrow> entry_date s \<noteq> None) \<and> cap \<le> peak_equity s \<and> 0 \<le> max_drawdown s \<and>
     ((\<forall>v \<in> set (equity_curve s). 0 \<le> v) \<longrightarrow> max_drawdown s \<le> 1)"

section \<open>backtest.py: the simulation loop in floating point\<close>

text \<open>
  Python computes every sum, difference, product and quotient of floats exactly and then
  rounds the result to binary64. The functions of this section are the loop of the
  previous section with each arithmetic result passed through a rounding function
  \<open>rnd\<close>; with the identity for \<open>rnd\<close> they are the functions of the previous section
  (lemma \<open>run_backtest_fl_exact\<close>). The prices and the capital are floats already.
\<close>

definition sell_step_fl :: "(real \<Rightarrow> real) \<Rightarrow> sim \<Rightarrow> row \<Rightarrow> error + sim" where
  "sell_step_fl rnd s r =
     (if exit_signal r \<and> holding s then
        (let exit_price = close r;
             profit = rnd (exit_price - entry_price s)
         in case entry_date s of
              None \<Rightarrow> Inl UnboundLocalError
            | Some d \<Rightarrow>
                Inr (s\<lparr>equity := rnd (equity s + profit),
                       trades := trades s @
                         [\<lparr>t_entry_date = d, t_exit_date = Date r,
                           t_entry_price = entry_price s, t_exit_price = exit_price,
                           t_profit = profit\<rparr>],
                       holding := False,
                       entry_price := 0\<rparr>))
      else Inr s)"

definition mark_step_fl :: "(real \<Rightarrow> real) \<Rightarrow> sim \<Rightarrow> row \<Rightarrow> error + sim" where
  "mark_step_fl rnd s r =
     (let current_value =
            rnd (equity s + (if holding s then rnd (close r - entry_price s) else 0));
          peak = (if current_value > peak_equity s then current_value else peak_equity s)
      in if peak = 0 then Inl ZeroDivisionError
         else
           (let drawdown = rnd (rnd (peak - current_value) / peak)
            in Inr (s\<lparr>equity_curve := equity_curve s @ [current_value],
                      peak_equity := peak,
                      max_drawdown :=
                        (if drawdown > max_drawdown s then drawdown else max_drawdown s)\<rparr>)))"

definition bar_fl :: "(real \<Rightarrow> real) \<Rightarrow> sim \<Rightarrow> row \<Rightarrow> error + sim" where
  "bar_fl rnd s r =
     (case sell_step_fl rnd s r of
        Inl e \<Rightarrow> Inl e
      | Inr s1 \<Rightarrow> mark_step_fl rnd (buy_step s1 r) r)"

fun simulate_fl :: "(real \<Rightarrow> real) \<Rightarrow> sim \<Rightarrow> row list \<Rightarrow> error + sim" where
  "simulate_fl rnd s [] = Inr s"
| "simulate_fl rnd s (r # rs) =
     (case bar_fl rnd s r of Inl e \<Rightarrow> Inl e | Inr s' \<Rightarrow> simulate_fl rnd s' rs)"

definition close_final_fl :: "(real \<Rightarrow> real) \<Rightarrow> sim \<Rightarrow> row list \<Rightarrow> error + sim" where
  "close_final_fl rnd s rows =
     (if holding s then
        (case rows of
           [] \<Rightarrow> Inl IndexError
         | _ \<Rightarrow>
           (let final_price = close (last rows);
                profit = rnd (final_price - entry_price s)
            in case entry_date s of
                 None \<Rightarrow> Inl UnboundLocalError
               | Some d \<Rightarrow>
                   Inr (s\<lparr>equity := rnd (equity s + profit),
                          trades := trades s @
                            [\<lparr>t_entry_date = d, t_exit_date = Date (last rows),
                              t_entry_price = entry_price s, t_exit_price = final_price,
                              t_profit = profit\<rparr>]\<rparr>)))
      else Inr s)"

definition performance_fl :: "(real \<Rightarrow> real) \<Rightarrow> real \<Rightarrow> sim \<Rightarrow> error + report" where
  "performance_fl rnd capital s =
     (let final = equity s;
          total = rnd (final - capital)
      in if capital = 0 then Inl ZeroDivisionError
         else
           (let n = length (trades s);
                wins = filter (\<lambda>t. t_profit t > 0) (trades s)
            in Inr \<lparr>initial_capital = capital,
                    final_equity = final,
                    total_profit = total,
                    profit_percent = rnd (rnd (total / capital) * 100),
                    report_max_drawdown = max_drawdown s,
                    num_trades = n,
                    num_wins = length wins,
                    win_rate =
                      (if n > 0 then rnd (rnd (real (length wins) / real n) * 100) else 0),
                    report_trades = trades s,
                    report_equity_curve = equity_curve s\<rparr>))"

definition run_backtest_fl :: "(real \<Rightarrow> real) \<Rightarrow> row list \<Rightarrow> real \<Rightarrow> error + report" where
  "run_backtest_fl rnd rows capital =
     (case simulate_fl rnd (init_sim capital) rows of
        Inl e \<Rightarrow> Inl e
      | Inr s \<Rightarrow>
          (case close_final_fl rnd s rows of
             Inl e \<Rightarrow> Inl e
           | Inr s' \<Rightarrow> performance_fl rnd capital s'))"

subsection \<open>Rounding to binary64\<close>

text \<open>
  Rounding to the nearest number with 53 significant bits, ties to the even significand.
  Overflow, subnormal numbers and NaN are not modelled: the function is the rounding of
  binary64 on the range of its normal numbers. \<open>bit_length n\<close> is the number of binary
  digits of \<open>n\<close>, and \<open>binary_exponent x\<close> is the \<open>e\<close> with
  \<open>2^e \<le> |x| < 2^(e+1)\<close> for \<open>x\<close> other than zero.
\<close>

fun bit_length :: "nat \<Rightarrow> nat" where
  "bit_length n = (if n = 0 then 0 else Suc (bit_length (n div 2)))"

declare bit_length.simps [simp del]

definition binary_exponent :: "real \<Rightarrow> int" where
  "binary_exponent x =
     (if 1 \<le> \<bar>x\<bar> then int (bit_length (nat \<lfloor>\<bar>x\<bar>\<rfloor>)) - 1
      else - int (bit_length (nat (\<lceil>1 / \<bar>x\<bar>\<rceil> - 1))))"

definition round_half_even :: "real \<Rightarrow> int" where
  "round_half_even x =
     (let f = \<lfloor>x\<rfloor>; d = x - of_int f
      in if d < 1 / 2 then f
         else if d > 1 / 2 then f + 1
         else if even f then f else f + 1)"

definition binary64 :: "real \<Rightarrow> real" where
  "binary64 x =
     (if x = 0 then 0
      else
        (let q = binary_exponent x - 52
         in if 0 \<le> q then of_int (round_half_even (x / 2 ^ nat q)) * 2 ^ nat q
            else of_int (round_half_even (x * 2 ^ nat (- q))) / 2 ^ nat (- q)))"

subsection \<open>Example tables\<close>

text \<open>
  The floats nearest to 0.1 and to 0.3, and the floats that the loop computes from them
  with a capital of 10000: the profit \<open>0.3 - 0.1\<close>, the equity \<open>10000 + profit\<close> and
  the total profit \<open>equity - 10000\<close>. Python prints them as 0.1, 0.3,
  0.19999999999999998, 10000.2 and 0.2000000000007276.
\<close>

definition float_0_1 :: real where
  "float_0_1 = 3602879701896397 / 2 ^ 55"

definition float_0_3 :: real where
  "float_0_3 = 5404319552844595 / 2 ^ 54"

definition float_profit :: real where
  "float_profit = 7205759403792793 / 2 ^ 55"

definition float_equity :: real where
  "float_equity = 2748834045021389 / 2 ^ 38"

definition float_total :: real where
  "float_total = 54975581389 / 2 ^ 38"

text \<open>A buy at 0.1 and a sell at 0.3.\<close>

definition cents_rows :: "row list" where
  "cents_rows =
     [\<lparr>Date = 0, close = float_0_1, entry_signal = True, exit_signal = False\<rparr>,
      \<lparr>Date = 1, close = float_0_3, entry_signal = False, exit_signal = True\<rparr>]"

text \<open>A buy at 10 that is still held after the last row, whose close is 12.\<close>

definition held_rows :: "row list" where
  "held_rows =
     [\<lparr>Date = 0, close = 10, entry_signal = True, exit_signal = False\<rparr>,
      \<lparr>Date = 1, close = 12, entry_signal = False, exit_signal = False\<rparr>]"

section \<open>ast_nodes.py: the syntax tree\<close>

text \<open>
  The node classes that stand for expressions are one datatype, a rule is an EntryRule
  or an ExitRule, and a Strategy holds the list of rules. \<open>PyNone\<close> is Python's None,
  which the parser puts in the parameter list of an indicator written with empty
  parentheses. The constructor of the class Indicator upper-cases the name it is given;
  \<open>mk_Indicator\<close> is that constructor.
\<close>

datatype expr =
    LogicalOperation string "expr list"
  | Comparison string expr expr
  | Cross expr expr
  | CrossOver expr expr
  | CrossUnder expr expr
  | Indicator string "expr list"
  | Identifier string
  | Number real
  | PyNone

datatype rule = EntryRule expr | ExitRule expr

datatype strategy = Strategy "rule list"

definition upper_char :: "char \<Rightarrow> char" where
  "upper_char c =
     (case map_of (zip ''abcdefghijklmnopqrstuvwxyz'' ''ABCDEFGHIJKLMNOPQRSTUVWXYZ'') c of
        Some u \<Rightarrow> u
      | None \<Rightarrow> c)"

definition lower_char :: "char \<Rightarrow> char" where
  "lower_char c =
     (case map_of (zip ''ABCDEFGHIJKLMNOPQRSTUVWXYZ'' ''abcdefghijklmnopqrstuvwxyz'') c of
        Some l \<Rightarrow> l
      | None \<Rightarrow> c)"

definition upper :: "string \<Rightarrow> string" where
  "upper s = map upper_char s"

definition lower :: "string \<Rightarrow> string" where
  "lower s = map lower_char s"

definition mk_Indicator :: "string \<Rightarrow> expr list \<Rightarrow> expr" where
  "mk_Indicator name params = Indicator (upper name) params"

section \<open>code_generator.py: PandasCodeGenerator\<close>

text \<open>
  The generator returns Python source text, so the model returns strings. Python's
  \<open>str\<close> of a float is not part of the repository: every function that prints a
  Number takes it as the parameter \<open>fstr\<close>. The two fields of the generator object are
  the state that the visit methods thread.
\<close>

record gen =
  generated_indicators :: "string set"
  indicator_code :: "string list"

text \<open>\<open>sep.join(xs)\<close>\<close>

fun join :: "string \<Rightarrow> string list \<Rightarrow> string" where
  "join sep [] = []"
| "join sep [x] = x"
| "join sep (x # y # ys) = x @ sep @ join sep (y # ys)"

text \<open>\<open>df['name']\<close>\<close>

definition df_col :: "string \<Rightarrow> string" where
  "df_col name = ''df['' @ [CHR 0x27] @ name @ [CHR 0x27] @ '']''"

text \<open>
  Line 75, one element of the generator expression: the name of an Identifier, the
  printed value of a Number; any other node has no attribute \<open>value\<close>.
\<close>

fun param_str :: "(real \<Rightarrow> string) \<Rightarrow> expr \<Rightarrow> error + string" where
  "param_str fstr (Identifier name) = Inr name"
| "param_str fstr (Number v) = Inr (fstr v)"
| "param_str fstr _ = Inl AttributeError"

fun param_strs :: "(real \<Rightarrow> string) \<Rightarrow> expr list \<Rightarrow> error + string list" where
  "param_strs fstr [] = Inr []"
| "param_strs fstr (p # ps) =
     (case param_str fstr p of
        Inl e \<Rightarrow> Inl e
      | Inr s \<Rightarrow> (case param_strs fstr ps of Inl e \<Rightarrow> Inl e | Inr ss \<Rightarrow> Inr (s # ss)))"

text \<open>Lines 75-76: the column name of an indicator.\<close>

definition indicator_col_name :: "(real \<Rightarrow> string) \<Rightarrow> string \<Rightarrow> expr list \<Rightarrow> error + string" where
  "indicator_col_name fstr name params =
     (case param_strs fstr params of
        Inl e \<Rightarrow> Inl e
      | Inr ss \<Rightarrow> Inr (lower name @ ''_'' @ join ''_'' ss))"

text \<open>Line 80: the statement that computes an indicator column.\<close>

definition indicator_line :: "string \<Rightarrow> string \<Rightarrow> string list \<Rightarrow> string" where
  "indicator_line col name param_codes =
     df_col col @ '' = indicators.'' @ lower name @ ''('' @ join '', '' param_codes @ '')''"

text \<open>Lines 60 and 66: the text of a crossing of \<open>l\<close> over \<open>r\<close> with the two operators.\<close>

definition cross_text :: "string \<Rightarrow> string \<Rightarrow> string \<Rightarrow> string \<Rightarrow> string" where
  "cross_text op1 op2 l r =
     ''(('' @ l @ '') '' @ op1 @ '' ('' @ r @ '')) & (('' @ l @ '').shift(1) '' @ op2 @
     '' ('' @ r @ '').shift(1))''"

text \<open>
  visit dispatches on the class of the node; None has no visit method and reaches
  generic_visit, which raises. visit_all is the list comprehension over operands or
  parameters.
\<close>

fun visit :: "(real \<Rightarrow> string) \<Rightarrow> expr \<Rightarrow> gen \<Rightarrow> error + string \<times> gen"
  and visit_all :: "(real \<Rightarrow> string) \<Rightarrow> expr list \<Rightarrow> gen \<Rightarrow> error + string list \<times> gen"
where
  "visit fstr (LogicalOperation operator operands) g =
     (case visit_all fstr operands g of
        Inl e \<Rightarrow> Inl e
      | Inr (operand_codes, g') \<Rightarrow>
          Inr (''('' @ join (if operator = ''AND'' then '' & '' else '' | '') operand_codes @ '')'',
               g'))"
| "visit fstr (Comparison operator left right) g =
     (case visit fstr left g of
        Inl e \<Rightarrow> Inl e
      | Inr (left_code, g1) \<Rightarrow>
          (case visit fstr right g1 of
             Inl e \<Rightarrow> Inl e
           | Inr (right_code, g2) \<Rightarrow>
               Inr (''('' @ left_code @ '' '' @ operator @ '' '' @ right_code @ '')'', g2)))"
| "visit fstr (Cross left right) g =
     (case visit fstr left g of
        Inl e \<Rightarrow> Inl e
      | Inr (left_code, g1) \<Rightarrow>
          (case visit fstr right g1 of
             Inl e \<Rightarrow> Inl e
           | Inr (right_code, g2) \<Rightarrow> Inr (cross_text ''>'' ''<='' left_code right_code, g2)))"
| "visit fstr (CrossOver left right) g =
     (case visit fstr left g of
        Inl e \<Rightarrow> Inl e
      | Inr (left_code, g1) \<Rightarrow>
          (case visit fstr right g1 of
             Inl e \<Rightarrow> Inl e
           | Inr (right_code, g2) \<Rightarrow> Inr (cross_text ''>'' ''<='' left_code right_code, g2)))"
| "visit fstr (CrossUnder left right) g =
     (case visit fstr left g of
        Inl e \<Rightarrow> Inl e
      | Inr (left_code, g1) \<Rightarrow>
          (case visit fstr right g1 of
             Inl e \<Rightarrow> Inl e
           | Inr (right_code, g2) \<Rightarrow> Inr (cross_text ''<'' ''>='' left_code right_code, g2)))"
| "visit fstr (Indicator name params) g =
     (case indicator_col_name fstr name params of
        Inl e \<Rightarrow> Inl e
      | Inr col \<Rightarrow>
          if col \<notin> generated_indicators g then
            (case visit_all fstr params g of
               Inl e \<Rightarrow> Inl e
             | Inr (param_codes, g1) \<Rightarrow>
                 Inr (df_col col,
                      g1\<lparr>indicator_code := indicator_code g1 @ [indicator_line col name param_codes],
                         generated_indicators := insert col (generated_indicators g1)\<rparr>))
          else Inr (df_col col, g))"
| "visit fstr (Identifier name) g = Inr (df_col name, g)"
| "visit fstr (Number v) g = Inr (fstr v, g)"
| "visit fstr PyNone g = Inl NoVisitMethod"
| "visit_all fstr [] g = Inr ([], g)"
| "visit_all fstr (x # xs) g =
     (case visit fstr x g of
        Inl e \<Rightarrow> Inl e
      | Inr (code, g1) \<Rightarrow>
          (case visit_all fstr xs g1 of
             Inl e \<Rightarrow> Inl e
           | Inr (codes, g2) \<Rightarrow> Inr (code # codes, g2)))"

text \<open>The dictionary that generate returns.\<close>

record generated =
  indicators :: string
  entry :: string
  exit :: string

text \<open>The for loop of generate, lines 22-26, over the state and the two code variables.\<close>

fun visit_rules ::
  "(real \<Rightarrow> string) \<Rightarrow> rule list \<Rightarrow> gen \<times> string \<times> string \<Rightarrow> error + gen \<times> string \<times> string"
where
  "visit_rules fstr [] acc = Inr acc"
| "visit_rules fstr (EntryRule condition # rules) (g, entry_code, exit_code) =
     (case visit fstr condition g of
        Inl e \<Rightarrow> Inl e
      | Inr (code, g') \<Rightarrow> visit_rules fstr rules (g', code, exit_code))"
| "visit_rules fstr (ExitRule condition # rules) (g, entry_code, exit_code) =
     (case visit fstr condition g of
        Inl e \<Rightarrow> Inl e
      | Inr (code, g') \<Rightarrow> visit_rules fstr rules (g', entry_code, code))"

definition fresh_gen :: gen where
  "fresh_gen = \<lparr>generated_indicators = {}, indicator_code = []\<rparr>"

fun generate :: "(real \<Rightarrow> string) \<Rightarrow> strategy \<Rightarrow> error + generated" where
  "generate fstr (Strategy rules) =
     (case visit_rules fstr rules (fresh_gen, ''False'', ''False'') of
        Inl e \<Rightarrow> Inl e
      | Inr (g, entry_code, exit_code) \<Rightarrow>
          Inr \<lparr>indicators = join [CHR 0x0A] (indicator_code g),
               entry = entry_code,
               exit = exit_code\<rparr>)"

section \<open>The generated pandas expressions and their evaluation\<close>

text \<open>
  run_backtest evaluates the entry and exit text with Python's eval against the data
  frame. \<open>pyexpr\<close> is the abstract syntax of the text that visit produces, and
  \<open>render\<close> writes a \<open>pyexpr\<close> back as that text.
\<close>

datatype pyexpr =
    Col string
  | Lit real
  | Paren pyexpr
  | Compare pyexpr string pyexpr
  | Join string "pyexpr list"
  | Shift pyexpr

fun render :: "(real \<Rightarrow> string) \<Rightarrow> pyexpr \<Rightarrow> string" where
  "render fstr (Col name) = df_col name"
| "render fstr (Lit v) = fstr v"
| "render fstr (Paren e) = ''('' @ render fstr e @ '')''"
| "render fstr (Compare l operator r) =
     render fstr l @ '' '' @ operator @ '' '' @ render fstr r"
| "render fstr (Join sep es) = join sep (map (render fstr) es)"
| "render fstr (Shift e) = render fstr e @ ''.shift(1)''"

text \<open>The expression behind \<open>cross_text\<close>.\<close>

definition cross_code :: "string \<Rightarrow> string \<Rightarrow> pyexpr \<Rightarrow> pyexpr \<Rightarrow> pyexpr" where
  "cross_code op1 op2 l r =
     Join '' & ''
       [Paren (Compare (Paren l) op1 (Paren r)),
        Paren (Compare (Shift (Paren l)) op2 (Shift (Paren r)))]"

text \<open>
  The expression that visit writes for a node, or the exception it raises. Whether visit
  raises does not depend on the state of the generator.
\<close>

fun expr_code :: "(real \<Rightarrow> string) \<Rightarrow> expr \<Rightarrow> error + pyexpr"
  and expr_codes :: "(real \<Rightarrow> string) \<Rightarrow> expr list \<Rightarrow> error + pyexpr list"
where
  "expr_code fstr (LogicalOperation operator operands) =
     (case expr_codes fstr operands of
        Inl e \<Rightarrow> Inl e
      | Inr cs \<Rightarrow> Inr (Paren (Join (if operator = ''AND'' then '' & '' else '' | '') cs)))"
| "expr_code fstr (Comparison operator left right) =
     (case expr_code fstr left of
        Inl e \<Rightarrow> Inl e
      | Inr l \<Rightarrow>
          (case expr_code fstr right of
             Inl e \<Rightarrow> Inl e
           | Inr r \<Rightarrow> Inr (Paren (Compare l operator r))))"
| "expr_code fstr (Cross left right) =
     (case expr_code fstr left of
        Inl e \<Rightarrow> Inl e
      | Inr l \<Rightarrow>
          (case expr_code fstr right of
             Inl e \<Rightarrow> Inl e
           | Inr r \<Rightarrow> Inr (cross_code ''>'' ''<='' l r)))"
| "expr_code fstr (CrossOver left right) =
     (case expr_code fstr left of
        Inl e \<Rightarrow> Inl e
      | Inr l \<Rightarrow>
          (case expr_code fstr right of
             Inl e \<Rightarrow> Inl e
           | Inr r \<Rightarrow> Inr (cross_code ''>'' ''<='' l r)))"
| "expr_code fstr (CrossUnder left right) =
     (case expr_code fstr left of
        Inl e \<Rightarrow> Inl e
      | Inr l \<Rightarrow>
          (case expr_code fstr right of
             Inl e \<Rightarrow> Inl e
           | Inr r \<Rightarrow> Inr (cross_code ''<'' ''>='' l r)))"
| "expr_code fstr (Indicator name params) =
     (case indicator_col_name fstr name params of
        Inl e \<Rightarrow> Inl e
      | Inr col \<Rightarrow> Inr (Col col))"
| "expr_code fstr (Identifier name) = Inr (Col name)"
| "expr_code fstr (Number v) = Inr (Lit v)"
| "expr_code fstr PyNone = Inl NoVisitMethod"
| "expr_codes fstr [] = Inr []"
| "expr_codes fstr (x # xs) =
     (case expr_code fstr x of
        Inl e \<Rightarrow> Inl e
      | Inr c \<Rightarrow> (case expr_codes fstr xs of Inl e \<Rightarrow> Inl e | Inr cs \<Rightarrow> Inr (c # cs)))"

text \<open>
  The values of the fragment of pandas that the generated text uses on numeric columns:
  a float Series (\<open>None\<close> is NaN), a boolean Series, a float and a bool. The data frame
  maps a column name to its float Series. Operations of pandas outside this fragment
  (arithmetic on booleans, shifting a boolean Series, an empty tuple) give
  \<open>Unmodelled\<close>.
\<close>

datatype pyval =
    FloatSeries "real option list"
  | BoolSeries "bool list"
  | FloatScalar real
  | BoolScalar bool

type_synonym frame = "string \<Rightarrow> real option list option"

definition comparison_of :: "string \<Rightarrow> (real \<Rightarrow> real \<Rightarrow> bool) option" where
  "comparison_of operator =
     (if operator = ''>'' then Some (\<lambda>x y. x > y)
      else if operator = ''<'' then Some (\<lambda>x y. x < y)
      else if operator = ''>='' then Some (\<lambda>x y. x \<ge> y)
      else if operator = ''<='' then Some (\<lambda>x y. x \<le> y)
      else if operator = ''=='' then Some (\<lambda>x y. x = y)
      else None)"

text \<open>Each of the five comparisons is false when an operand is NaN.\<close>

fun nan_compare :: "(real \<Rightarrow> real \<Rightarrow> bool) \<Rightarrow> real option \<Rightarrow> real option \<Rightarrow> bool" where
  "nan_compare f (Some x) (Some y) = f x y"
| "nan_compare f _ _ = False"

fun compare_values :: "(real \<Rightarrow> real \<Rightarrow> bool) \<Rightarrow> pyval \<Rightarrow> pyval \<Rightarrow> error + pyval" where
  "compare_values f (FloatSeries xs) (FloatSeries ys) =
     (if length xs = length ys then Inr (BoolSeries (map2 (nan_compare f) xs ys))
      else Inl ValueError)"
| "compare_values f (FloatSeries xs) (FloatScalar y) =
     Inr (BoolSeries (map (\<lambda>x. nan_compare f x (Some y)) xs))"
| "compare_values f (FloatScalar x) (FloatSeries ys) =
     Inr (BoolSeries (map (\<lambda>y. nan_compare f (Some x) y) ys))"
| "compare_values f (FloatScalar x) (FloatScalar y) = Inr (BoolScalar (f x y))"
| "compare_values f _ _ = Inl Unmodelled"

text \<open>\<open>&\<close> and \<open>|\<close> on boolean Series of one frame.\<close>

fun combine :: "(bool \<Rightarrow> bool \<Rightarrow> bool) \<Rightarrow> pyval \<Rightarrow> pyval \<Rightarrow> error + pyval" where
  "combine f (BoolSeries xs) (BoolSeries ys) =
     (if length xs = length ys then Inr (BoolSeries (map2 f xs ys)) else Inl Unmodelled)"
| "combine f _ _ = Inl Unmodelled"

fun combine_all :: "(bool \<Rightarrow> bool \<Rightarrow> bool) \<Rightarrow> pyval \<Rightarrow> pyval list \<Rightarrow> error + pyval" where
  "combine_all f acc [] = Inr acc"
| "combine_all f acc (v # vs) =
     (case combine f acc v of Inl e \<Rightarrow> Inl e | Inr acc' \<Rightarrow> combine_all f acc' vs)"

text \<open>\<open>.shift(1)\<close> on a float Series: NaN first, the last value dropped.\<close>

definition shift1 :: "real option list \<Rightarrow> real option list" where
  "shift1 xs = (if xs = [] then [] else None # butlast xs)"

fun eval :: "frame \<Rightarrow> pyexpr \<Rightarrow> error + pyval"
  and eval_all :: "frame \<Rightarrow> pyexpr list \<Rightarrow> error + pyval list"
where
  "eval df (Col name) =
     (case df name of None \<Rightarrow> Inl (KeyError name) | Some xs \<Rightarrow> Inr (FloatSeries xs))"
| "eval df (Lit v) = Inr (FloatScalar v)"
| "eval df (Paren e) = eval df e"
| "eval df (Compare l operator r) =
     (case eval df l of
        Inl e \<Rightarrow> Inl e
      | Inr a \<Rightarrow>
          (case eval df r of
             Inl e \<Rightarrow> Inl e
           | Inr b \<Rightarrow>
               (case comparison_of operator of
                  None \<Rightarrow> Inl Unmodelled
                | Some f \<Rightarrow> compare_values f a b)))"
| "eval df (Join sep es) =
     (case eval_all df es of
        Inl e \<Rightarrow> Inl e
      | Inr [] \<Rightarrow> Inl Unmodelled
      | Inr (v # vs) \<Rightarrow>
          (if sep = '' & '' then combine_all (\<lambda>a b. a \<and> b) v vs
           else if sep = '' | '' then combine_all (\<lambda>a b. a \<or> b) v vs
           else Inl Unmodelled))"
| "eval df (Shift e) =
     (case eval df e of
        Inl err \<Rightarrow> Inl err
      | Inr (FloatSeries xs) \<Rightarrow> Inr (FloatSeries (shift1 xs))
      | Inr (BoolSeries bs) \<Rightarrow> Inl Unmodelled
      | Inr (FloatScalar x) \<Rightarrow> Inl AttributeError
      | Inr (BoolScalar b) \<Rightarrow> Inl AttributeError)"
| "eval_all df [] = Inr []"
| "eval_all df (e # es) =
     (case eval df e of
        Inl err \<Rightarrow> Inl err
      | Inr v \<Rightarrow> (case eval_all df es of Inl err \<Rightarrow> Inl err | Inr vs \<Rightarrow> Inr (v # vs)))"

subsection \<open>Example frame\<close>

definition cross_frame :: frame where
  "cross_frame =
     (\<lambda>name. if name = ''left'' then Some [Some 1, Some 3, Some 2, Some 5]
             else if name = ''right'' then Some [Some 2, Some 2, Some 3, Some 3]
             else None)"

section \<open>Notions used to state the properties of the generator\<close>

text \<open>The conditions of the entry rules and of the exit rules, in rule order.\<close>

fun condition :: "rule \<Rightarrow> expr" where
  "condition (EntryRule c) = c"
| "condition (ExitRule c) = c"




text \<open>
  The indicator calls of an expression, name and parameter list, in the order in which
  visit reaches them.
\<close>

fun indicator_calls :: "expr \<Rightarrow> (string \<times> expr list) list"
  and indicator_calls_all :: "expr list \<Rightarrow> (string \<times> expr list) list"
where
  "indicator_calls (LogicalOperation operator operands) = indicator_calls_all operands"
| "indicator_calls (Comparison operator left right) =
     indicator_calls left @ indicator_calls right"
| "indicator_calls (Cross left right) = indicator_calls left @ indicator_calls right"
| "indicator_calls (CrossOver left right) = indicator_calls left @ indicator_calls right"
| "indicator_calls (CrossUnder left right) = indicator_calls left @ indicator_calls right"
| "indicator_calls (Indicator name params) = [(name, params)]"
| "indicator_calls (Identifier name) = []"
| "indicator_calls (Number v) = []"
| "indicator_calls PyNone = []"
| "indicator_calls_all [] = []"
| "indicator_calls_all (x # xs) = indicator_calls x @ indicator_calls_all xs"

definition rule_calls :: "rule list \<Rightarrow> (string \<times> expr list) list" where
  "rule_calls rules = concat (map (\<lambda>r. indicator_calls (condition r)) rules)"

text \<open>The column name of a call and the statement that computes it.\<close>

definition call_key :: "(real \<Rightarrow> string) \<Rightarrow> string \<times> expr list \<Rightarrow> string" where
  "call_key fstr c =
     (case indicator_col_name fstr (fst c) (snd c) of Inr col \<Rightarrow> col | Inl e \<Rightarrow> [])"

definition call_line :: "(real \<Rightarrow> string) \<Rightarrow> string \<times> expr list \<Rightarrow> string" where
  "call_line fstr c =
     indicator_line (call_key fstr c) (fst c)
       (case expr_codes fstr (snd c) of Inr cs \<Rightarrow> map (render fstr) cs | Inl e \<Rightarrow> [])"

text \<open>
  Memoised evaluation as the specification describes it: of the items of a list, the
  first with each key that is not already in the cache.
\<close>

fun memoised :: "('a \<Rightarrow> 'k) \<Rightarrow> 'k set \<Rightarrow> 'a list \<Rightarrow> 'a list" where
  "memoised key cache [] = []"
| "memoised key cache (x # xs) =
     (if key x \<in> cache then memoised key cache xs
      else x # memoised key (insert (key x) cache) xs)"

subsection \<open>A printer of whole floats, for the examples\<close>

text \<open>
  Python prints a float with a whole value from 0 up to \<open>10^16\<close> as its decimal digits
  followed by \<open>.0\<close>.
\<close>

fun digits_of :: "nat \<Rightarrow> string" where
  "digits_of n =
     (if n < 10 then [''0123456789'' ! n]
      else digits_of (n div 10) @ [''0123456789'' ! (n mod 10)])"

declare digits_of.simps [simp del]

definition str_whole_float :: "real \<Rightarrow> string" where
  "str_whole_float v = digits_of (nat \<lfloor>v\<rfloor>) @ ''.0''"

subsection \<open>Example strategies\<close>

text \<open>\<open>close > SMA(close, 20)\<close> to enter and \<open>close < SMA(close, 20)\<close> to exit.\<close>

definition sma_rules :: "rule list" where
  "sma_rules =
     [EntryRule (Comparison ''>'' (Identifier ''close'')
        (Indicator ''SMA'' [Identifier ''close'', Number 20])),
      ExitRule (Comparison ''<'' (Identifier ''close'')
        (Indicator ''SMA'' [Identifier ''close'', Number 20]))]"

text \<open>
  \<open>RSI(a_b) > x\<close> to enter and \<open>RSI(a, b) > RSI(a, b)\<close> to exit: two different
  indicator expressions with one column name.
\<close>

definition collision_rules :: "rule list" where
  "collision_rules =
     [EntryRule (Comparison ''>'' (Indicator ''RSI'' [Identifier ''a_b'']) (Identifier ''x'')),
      ExitRule (Comparison ''>'' (Indicator ''RSI'' [Identifier ''a'', Identifier ''b''])
        (Indicator ''RSI'' [Identifier ''a'', Identifier ''b'']))]"


text \<open>
  One run of visit from the state \<open>g\<close> to the state \<open>g'\<close> over the calls \<open>calls\<close>: the
  statements appended are those of the calls that the cache does not hold yet, and the
  cache gains the column names of all of them.
\<close>

definition memo_step ::
  "(real \<Rightarrow> string) \<Rightarrow> (string \<times> expr list) list \<Rightarrow> gen \<Rightarrow> gen \<Rightarrow> bool"
where
  "memo_step fstr calls g g' \<longleftrightarrow>
     indicator_code g' = indicator_code g @
       map (call_line fstr) (memoised (call_key fstr) (generated_indicators g) calls) \<and>
     generated_indicators g' = generated_indicators g \<union> call_key fstr ` set calls"

section \<open>dsl_parser.py: the terminals of the grammar\<close>

text \<open>
  Lark is not part of the repository; what is modelled of it is what the grammar asks
  for, as Lark 1.x does it: the callback of a terminal is applied by the parser when it
  shifts the token, and an optional part in square brackets that is not matched gives
  None. The parser is built with \<open>parser='lalr'\<close>, whose lexer is contextual: at each
  point only the terminals that the grammar allows there are tried, after white space
  (the ignored terminal WS) has been skipped. A keyword written as a plain string
  (CROSS, CROSSOVER, CROSSUNDER) is recognised where the grammar allows it by matching a
  whole CNAME and comparing it with the keyword; the terminals with the flag \<open>i\<close> match
  a prefix of the input whatever its case. Input is ASCII.
\<close>

definition is_ws :: "char \<Rightarrow> bool" where
  "is_ws c \<longleftrightarrow> c \<in> set [CHR '' '', CHR 0x09, CHR 0x0C, CHR 0x0D, CHR 0x0A]"

definition is_digit :: "char \<Rightarrow> bool" where
  "is_digit c \<longleftrightarrow> c \<in> set ''0123456789''"

definition is_letter :: "char \<Rightarrow> bool" where
  "is_letter c \<longleftrightarrow>
     c \<in> set ''abcdefghijklmnopqrstuvwxyzABCDEFGHIJKLMNOPQRSTUVWXYZ''"

definition skip_ws :: "string \<Rightarrow> string" where
  "skip_ws s = dropWhile is_ws s"

text \<open>A string terminal: the remaining input after it, when it is next.\<close>

definition lex_literal :: "string \<Rightarrow> string \<Rightarrow> string option" where
  "lex_literal lit s =
     (let s' = skip_ws s
      in if take (length lit) s' = lit then Some (drop (length lit) s') else None)"

text \<open>A string terminal with the flag \<open>i\<close>: the text matched and the remaining input.\<close>

definition lex_literal_i :: "string \<Rightarrow> string \<Rightarrow> (string \<times> string) option" where
  "lex_literal_i lit s =
     (let s' = skip_ws s; n = length lit
      in if upper (take n s') = upper lit then Some (take n s', drop n s') else None)"

text \<open>CNAME: a letter or an underscore, then letters, digits and underscores.\<close>

definition lex_CNAME :: "string \<Rightarrow> (string \<times> string) option" where
  "lex_CNAME s =
     (let s' = skip_ws s
      in case s' of
           [] \<Rightarrow> None
         | c # cs \<Rightarrow>
             if is_letter c \<or> c = CHR ''_'' then
               Some (takeWhile (\<lambda>c. is_letter c \<or> is_digit c \<or> c = CHR ''_'') s',
                     dropWhile (\<lambda>c. is_letter c \<or> is_digit c \<or> c = CHR ''_'') s')
             else None)"

text \<open>COMP_OP: the two-character operators are tried before the one-character ones.\<close>

definition lex_COMP_OP :: "string \<Rightarrow> (string \<times> string) option" where
  "lex_COMP_OP s =
     (let s' = skip_ws s
      in if take 2 s' \<in> set [''>='', ''<='', ''==''] then Some (take 2 s', drop 2 s')
         else if take 1 s' \<in> set [''>'', ''<''] then Some (take 1 s', drop 1 s')
         else None)"

text \<open>The exponent of a FLOAT: \<open>e\<close> or \<open>E\<close>, an optional sign, digits.\<close>

definition lex_exponent :: "string \<Rightarrow> (string \<times> string) option" where
  "lex_exponent s =
     (case s of
        [] \<Rightarrow> None
      | e # r \<Rightarrow>
          if e \<in> set ''eE'' then
            (let sign = (case r of [] \<Rightarrow> [] | c # r' \<Rightarrow> if c \<in> set ''+-'' then [c] else []);
                 r1 = drop (length sign) r;
                 ds = takeWhile is_digit r1
             in if ds = [] then None else Some (e # sign @ ds, dropWhile is_digit r1))
          else None)"

text \<open>
  NUMBER is FLOAT or INT, with the alternatives of FLOAT tried first: digits and an
  exponent; digits, a point, optional digits and an optional exponent; a point, digits
  and an optional exponent; digits alone.
\<close>

definition lex_NUMBER :: "string \<Rightarrow> (string \<times> string) option" where
  "lex_NUMBER s =
     (let s' = skip_ws s;
          ip = takeWhile is_digit s';
          r1 = dropWhile is_digit s'
      in if ip \<noteq> [] then
           (case lex_exponent r1 of
              Some (ex, r) \<Rightarrow> Some (ip @ ex, r)
            | None \<Rightarrow>
                (case r1 of
                   [] \<Rightarrow> Some (ip, r1)
                 | c # r2 \<Rightarrow>
                     if c = CHR ''.'' then
                       (let fp = takeWhile is_digit r2; r3 = dropWhile is_digit r2
                        in case lex_exponent r3 of
                             Some (ex, r) \<Rightarrow> Some (ip @ ''.'' @ fp @ ex, r)
                           | None \<Rightarrow> Some (ip @ ''.'' @ fp, r3))
                     else Some (ip, r1)))
         else
           (case s' of
              [] \<Rightarrow> None
            | c # r2 \<Rightarrow>
                if c = CHR ''.'' \<and> takeWhile is_digit r2 \<noteq> [] then
                  (let fp = takeWhile is_digit r2; r3 = dropWhile is_digit r2
                   in case lex_exponent r3 of
                        Some (ex, r) \<Rightarrow> Some (''.'' @ fp @ ex, r)
                      | None \<Rightarrow> Some (''.'' @ fp, r3))
                else None))"

text \<open>
  Python's \<open>float\<close> on the texts that NUMBER matches, as a real number; on any other
  text of this shape it raises ValueError.
\<close>

definition nat_of_digits :: "string \<Rightarrow> nat" where
  "nat_of_digits ds = foldl (\<lambda>a c. 10 * a + (of_char c - 48)) 0 ds"

definition py_float :: "string \<Rightarrow> error + real" where
  "py_float text =
     (let ip = takeWhile is_digit text;
          r1 = dropWhile is_digit text;
          fp = (case r1 of [] \<Rightarrow> [] | c # r \<Rightarrow> if c = CHR ''.'' then takeWhile is_digit r else []);
          r2 = (case r1 of [] \<Rightarrow> [] | c # r \<Rightarrow> if c = CHR ''.'' then dropWhile is_digit r else r1);
          mantissa = real (nat_of_digits (ip @ fp)) / 10 ^ length fp
      in if ip @ fp = [] then Inl ValueError
         else
           (case r2 of
              [] \<Rightarrow> Inr mantissa
            | e # r3 \<Rightarrow>
                if e \<in> set ''eE'' then
                  (let negative = (case r3 of [] \<Rightarrow> False | c # r \<Rightarrow> c = CHR ''-'');
                       ds = (case r3 of [] \<Rightarrow> [] | c # r \<Rightarrow> if c \<in> set ''+-'' then r else r3)
                   in if ds \<noteq> [] \<and> list_all is_digit ds then
                        Inr (if negative then mantissa / 10 ^ nat_of_digits ds
                             else mantissa * 10 ^ nat_of_digits ds)
                      else Inl ValueError)
                else Inl ValueError))"

section \<open>dsl_parser.py: AstTransformer\<close>

text \<open>
  The callbacks receive the children of a rule. For or_expr and and_expr these are the
  operands and the operator texts in between, all of them in one list: the helper rule
  that Lark makes for \<open>(AND comparison)*\<close> is inlined into its parent. \<open>Operator\<close> is the
  value that the callbacks AND and OR return for a token.
\<close>

datatype item = Operand expr | Operator string

text \<open>
  Lines 57-61. One item is returned as it is. With three items the constructor of
  LogicalOperation is called with three arguments where it takes two: TypeError. Any
  other number of items cannot be unpacked into left, op, right: ValueError.
\<close>

fun or_expr :: "item list \<Rightarrow> error + expr" where
  "or_expr [Operand x] = Inr x"
| "or_expr [left, operator, right] = Inl TypeError"
| "or_expr [Operator x] = Inl Unmodelled"
| "or_expr items = Inl ValueError"

text \<open>
  Lines 63-71. With three items whose left operand is a LogicalOperation of the same
  operator text, the right operand is appended to the operands of that node, which is
  returned; otherwise a new node of the two operands is made. Three items of another
  shape than operand, operator, operand do not come from the grammar.
\<close>

fun and_expr :: "item list \<Rightarrow> error + expr" where
  "and_expr [Operand x] = Inr x"
| "and_expr [Operand left, Operator operator, Operand right] =
     (case left of
        LogicalOperation left_operator operands \<Rightarrow>
          if left_operator = operator then Inr (LogicalOperation left_operator (operands @ [right]))
          else Inr (LogicalOperation operator [left, right])
      | _ \<Rightarrow> Inr (LogicalOperation operator [left, right]))"
| "and_expr [left, operator, right] = Inl Unmodelled"
| "and_expr [Operator x] = Inl Unmodelled"
| "and_expr items = Inl ValueError"

text \<open>The callbacks of the rules with a fixed number of children.\<close>

definition simple_comp :: "expr \<Rightarrow> string \<Rightarrow> expr \<Rightarrow> expr" where
  "simple_comp left operator right = Comparison operator left right"

definition cross_expr :: "expr \<Rightarrow> expr \<Rightarrow> expr" where
  "cross_expr left right = Cross left right"

definition crossover_expr :: "expr \<Rightarrow> expr \<Rightarrow> expr" where
  "crossover_expr left right = CrossOver left right"

definition crossunder_expr :: "expr \<Rightarrow> expr \<Rightarrow> expr" where
  "crossunder_expr left right = CrossUnder left right"

definition indicator :: "string \<Rightarrow> expr list \<Rightarrow> expr" where
  "indicator name params = mk_Indicator name params"

definition identifier_callback :: "string \<Rightarrow> expr" where
  "identifier_callback name = Identifier name"

definition number :: "string \<Rightarrow> error + expr" where
  "number text = (case py_float text of Inl e \<Rightarrow> Inl e | Inr v \<Rightarrow> Inr (Number v))"

definition entry_rule :: "expr \<Rightarrow> rule" where
  "entry_rule cond = EntryRule cond"

definition exit_rule :: "expr \<Rightarrow> rule" where
  "exit_rule cond = ExitRule cond"

section \<open>dsl_parser.py: the grammar\<close>

text \<open>
  The grammar is read as a recursive descent over the input text. Every function takes
  the remaining input and gives the value of the rule with the input left over, or the
  exception raised. The recursion of the grammar through parentheses and parameter lists
  is bounded by a counter that is decremented only after input has been consumed;
  \<open>None\<close> means that the counter ran out, which does not happen when it starts at the
  length of the input (lemma \<open>lark_parse_returns\<close>).

  Lark reads one token ahead before it calls the callback of a finished rule. When the
  text has a syntax error right after a chain on which a callback raises, Lark reports
  the syntax error and this model the exception of the callback; which of the two is
  reported is the only difference, parse_dsl returns None on both.
\<close>

type_synonym 'a parsed = "(error + 'a \<times> string) option"

text \<open>
  atom: indicator | CNAME -> identifier | NUMBER -> number, and
  indicator: CNAME "(" [atom ("," atom)*] ")". An empty pair of parentheses leaves the
  optional part unmatched, for which Lark passes None to the callback.
\<close>

fun parse_atom :: "nat \<Rightarrow> string \<Rightarrow> expr parsed"
  and indicator_params :: "nat \<Rightarrow> string \<Rightarrow> (expr list) parsed"
  and more_params :: "nat \<Rightarrow> expr list \<Rightarrow> string \<Rightarrow> (expr list) parsed"
where
  "parse_atom n s =
     (case lex_NUMBER s of
        Some (text, rest) \<Rightarrow>
          (case number text of Inl e \<Rightarrow> Some (Inl e) | Inr v \<Rightarrow> Some (Inr (v, rest)))
      | None \<Rightarrow>
          (case lex_CNAME s of
             None \<Rightarrow> Some (Inl (UnexpectedInput (skip_ws s)))
           | Some (name, rest) \<Rightarrow>
               (case lex_literal ''('' rest of
                  None \<Rightarrow> Some (Inr (identifier_callback name, rest))
                | Some rest1 \<Rightarrow>
                    (case n of
                       0 \<Rightarrow> None
                     | Suc m \<Rightarrow>
                         (case indicator_params m rest1 of
                            None \<Rightarrow> None
                          | Some (Inl e) \<Rightarrow> Some (Inl e)
                          | Some (Inr (params, rest2)) \<Rightarrow>
                              Some (Inr (indicator name params, rest2)))))))"
| "indicator_params n s =
     (case lex_literal '')'' s of
        Some rest \<Rightarrow> Some (Inr ([PyNone], rest))
      | None \<Rightarrow>
          (case parse_atom n s of
             None \<Rightarrow> None
           | Some (Inl e) \<Rightarrow> Some (Inl e)
           | Some (Inr (a, rest)) \<Rightarrow> more_params n [a] rest))"
| "more_params n params s =
     (case lex_literal '','' s of
        Some rest \<Rightarrow>
          (case n of
             0 \<Rightarrow> None
           | Suc m \<Rightarrow>
               (case parse_atom m rest of
                  None \<Rightarrow> None
                | Some (Inl e) \<Rightarrow> Some (Inl e)
                | Some (Inr (a, rest1)) \<Rightarrow> more_params m (params @ [a]) rest1))
      | None \<Rightarrow>
          (case lex_literal '')'' s of
             Some rest \<Rightarrow> Some (Inr (params, rest))
           | None \<Rightarrow> Some (Inl (UnexpectedInput (skip_ws s)))))"


declare parse_atom.simps [simp del] indicator_params.simps [simp del]
  more_params.simps [simp del]

text \<open>The arguments of a crossing: "(" atom "," atom ")".\<close>

definition cross_args :: "nat \<Rightarrow> string \<Rightarrow> (expr \<times> expr) parsed" where
  "cross_args n s =
     (case lex_literal ''('' s of
        None \<Rightarrow> Some (Inl (UnexpectedInput (skip_ws s)))
      | Some r1 \<Rightarrow>
          (case parse_atom n r1 of
             None \<Rightarrow> None
           | Some (Inl e) \<Rightarrow> Some (Inl e)
           | Some (Inr (left, r2)) \<Rightarrow>
               (case lex_literal '','' r2 of
                  None \<Rightarrow> Some (Inl (UnexpectedInput (skip_ws r2)))
                | Some r3 \<Rightarrow>
                    (case parse_atom n r3 of
                       None \<Rightarrow> None
                     | Some (Inl e) \<Rightarrow> Some (Inl e)
                     | Some (Inr (right, r4)) \<Rightarrow>
                         (case lex_literal '')'' r4 of
                            None \<Rightarrow> Some (Inl (UnexpectedInput (skip_ws r4)))
                          | Some r5 \<Rightarrow> Some (Inr ((left, right), r5)))))))"

text \<open>simple_comp: atom COMP_OP atom.\<close>

definition parse_simple_comp :: "nat \<Rightarrow> string \<Rightarrow> expr parsed" where
  "parse_simple_comp n s =
     (case parse_atom n s of
        None \<Rightarrow> None
      | Some (Inl e) \<Rightarrow> Some (Inl e)
      | Some (Inr (left, r1)) \<Rightarrow>
          (case lex_COMP_OP r1 of
             None \<Rightarrow> Some (Inl (UnexpectedInput (skip_ws r1)))
           | Some (operator, r2) \<Rightarrow>
               (case parse_atom n r2 of
                  None \<Rightarrow> None
                | Some (Inl e) \<Rightarrow> Some (Inl e)
                | Some (Inr (right, r3)) \<Rightarrow> Some (Inr (simple_comp left operator right, r3)))))"

text \<open>The result of a callback on the children collected, with the input left over.\<close>

definition lift_callback :: "(item list \<Rightarrow> error + expr) \<Rightarrow> item list \<Rightarrow> string \<Rightarrow> expr parsed" where
  "lift_callback f items rest = (case f items of Inl e \<Rightarrow> Some (Inl e) | Inr x \<Rightarrow> Some (Inr (x, rest)))"

text \<open>
  or_expr: and_expr (OR and_expr)*, and_expr: comparison (AND comparison)*, and
  comparison: crossover_expr | crossunder_expr | cross_expr | simple_comp
  | "(" expression ")". The rules expression and comparison are inlined (\<open>?\<close>).
\<close>

fun parse_or_expr :: "nat \<Rightarrow> string \<Rightarrow> expr parsed"
  and or_items :: "nat \<Rightarrow> item list \<Rightarrow> string \<Rightarrow> (item list) parsed"
  and parse_and_expr :: "nat \<Rightarrow> string \<Rightarrow> expr parsed"
  and and_items :: "nat \<Rightarrow> item list \<Rightarrow> string \<Rightarrow> (item list) parsed"
  and parse_comparison :: "nat \<Rightarrow> string \<Rightarrow> expr parsed"
where
  "parse_or_expr n s =
     (case parse_and_expr n s of
        None \<Rightarrow> None
      | Some (Inl e) \<Rightarrow> Some (Inl e)
      | Some (Inr (x, rest)) \<Rightarrow>
          (case or_items n [Operand x] rest of
             None \<Rightarrow> None
           | Some (Inl e) \<Rightarrow> Some (Inl e)
           | Some (Inr (items, rest1)) \<Rightarrow> lift_callback or_expr items rest1))"
| "or_items n items s =
     (case lex_literal_i ''OR'' s of
        None \<Rightarrow> Some (Inr (items, s))
      | Some (operator, rest) \<Rightarrow>
          (case n of
             0 \<Rightarrow> None
           | Suc m \<Rightarrow>
               (case parse_and_expr m rest of
                  None \<Rightarrow> None
                | Some (Inl e) \<Rightarrow> Some (Inl e)
                | Some (Inr (x, rest1)) \<Rightarrow>
                    or_items m (items @ [Operator operator, Operand x]) rest1)))"
| "parse_and_expr n s =
     (case parse_comparison n s of
        None \<Rightarrow> None
      | Some (Inl e) \<Rightarrow> Some (Inl e)
      | Some (Inr (x, rest)) \<Rightarrow>
          (case and_items n [Operand x] rest of
             None \<Rightarrow> None
           | Some (Inl e) \<Rightarrow> Some (Inl e)
           | Some (Inr (items, rest1)) \<Rightarrow> lift_callback and_expr items rest1))"
| "and_items n items s =
     (case lex_literal_i ''AND'' s of
        None \<Rightarrow> Some (Inr (items, s))
      | Some (operator, rest) \<Rightarrow>
          (case n of
             0 \<Rightarrow> None
           | Suc m \<Rightarrow>
               (case parse_comparison m rest of
                  None \<Rightarrow> None
                | Some (Inl e) \<Rightarrow> Some (Inl e)
                | Some (Inr (x, rest1)) \<Rightarrow>
                    and_items m (items @ [Operator operator, Operand x]) rest1)))"
| "parse_comparison n s =
     (case lex_literal ''('' s of
        Some rest \<Rightarrow>
          (case n of
             0 \<Rightarrow> None
           | Suc m \<Rightarrow>
               (case parse_or_expr m rest of
                  None \<Rightarrow> None
                | Some (Inl e) \<Rightarrow> Some (Inl e)
                | Some (Inr (x, rest1)) \<Rightarrow>
                    (case lex_literal '')'' rest1 of
                       None \<Rightarrow> Some (Inl (UnexpectedInput (skip_ws rest1)))
                     | Some rest2 \<Rightarrow> Some (Inr (x, rest2)))))
      | None \<Rightarrow>
          (case lex_CNAME s of
             None \<Rightarrow> parse_simple_comp n s
           | Some (name, rest) \<Rightarrow>
               if name = ''CROSSOVER'' then
                 (case cross_args n rest of
                    None \<Rightarrow> None
                  | Some (Inl e) \<Rightarrow> Some (Inl e)
                  | Some (Inr ((l, r), rest1)) \<Rightarrow> Some (Inr (crossover_expr l r, rest1)))
               else if name = ''CROSSUNDER'' then
                 (case cross_args n rest of
                    None \<Rightarrow> None
                  | Some (Inl e) \<Rightarrow> Some (Inl e)
                  | Some (Inr ((l, r), rest1)) \<Rightarrow> Some (Inr (crossunder_expr l r, rest1)))
               else if name = ''CROSS'' then
                 (case cross_args n rest of
                    None \<Rightarrow> None
                  | Some (Inl e) \<Rightarrow> Some (Inl e)
                  | Some (Inr ((l, r), rest1)) \<Rightarrow> Some (Inr (cross_expr l r, rest1)))
               else parse_simple_comp n s))"

declare parse_or_expr.simps [simp del] or_items.simps [simp del]
  parse_and_expr.simps [simp del] and_items.simps [simp del] parse_comparison.simps [simp del]

text \<open>rule: "ENTRY:"i expression -> entry_rule | "EXIT:"i expression -> exit_rule.\<close>

definition parse_rule :: "nat \<Rightarrow> string \<Rightarrow> rule parsed" where
  "parse_rule n s =
     (case lex_literal_i ''ENTRY:'' s of
        Some (kw, rest) \<Rightarrow>
          (case parse_or_expr n rest of
             None \<Rightarrow> None
           | Some (Inl e) \<Rightarrow> Some (Inl e)
           | Some (Inr (x, rest1)) \<Rightarrow> Some (Inr (entry_rule x, rest1)))
      | None \<Rightarrow>
          (case lex_literal_i ''EXIT:'' s of
             Some (kw, rest) \<Rightarrow>
               (case parse_or_expr n rest of
                  None \<Rightarrow> None
                | Some (Inl e) \<Rightarrow> Some (Inl e)
                | Some (Inr (x, rest1)) \<Rightarrow> Some (Inr (exit_rule x, rest1)))
           | None \<Rightarrow> Some (Inl (UnexpectedInput (skip_ws s)))))"

text \<open>
  strategy: rule+, up to the end of the input; the callback strategy makes the Strategy
  node of the rules.
\<close>

fun parse_rules :: "nat \<Rightarrow> rule list \<Rightarrow> string \<Rightarrow> (error + strategy) option" where
  "parse_rules n rules s =
     (case parse_rule n s of
        None \<Rightarrow> None
      | Some (Inl e) \<Rightarrow> Some (Inl e)
      | Some (Inr (r, rest)) \<Rightarrow>
          if skip_ws rest = [] then Some (Inr (Strategy (rules @ [r])))
          else
            (case n of
               0 \<Rightarrow> None
             | Suc m \<Rightarrow> parse_rules m (rules @ [r]) rest))"

declare parse_rules.simps [simp del]

text \<open>\<open>dsl_parser.parse(dsl_string)\<close>\<close>

definition lark_parse :: "string \<Rightarrow> (error + strategy) option" where
  "lark_parse text = parse_rules (length text) [] text"

text \<open>
  Lines 104-112. parse_dsl catches every exception, prints a line with its message and
  returns None. The second component of the result is what was printed.
\<close>

datatype printed = Error_parsing_DSL error

definition parse_dsl :: "string \<Rightarrow> (strategy option \<times> printed list) option" where
  "parse_dsl dsl_string =
     (case lark_parse dsl_string of
        None \<Rightarrow> None
      | Some (Inr tree) \<Rightarrow> Some (Some tree, [])
      | Some (Inl e) \<Rightarrow> Some (None, [Error_parsing_DSL e]))"


subsection \<open>Example rule texts\<close>

definition and_chain_text :: string where
  "and_chain_text = ''ENTRY: close > 1 AND close > 2 AND close > 3''"

definition and_or_text :: string where
  "and_or_text = ''ENTRY: close > 1 AND close > 2 OR close > 3''"

definition demo_text :: string where
  "demo_text =
     ''ENTRY: CROSSOVER(SMA(close, 10), SMA(close, 30))'' @ [CHR 0x0A] @
     ''EXIT: CROSSUNDER(SMA(close, 30), SMA(close, 10))''"


section \<open>Properties of the simulation\<close>

subsection \<open>The loop never raises on a positive capital\<close>

lemma bar_reachable_inv:
  "0 < cap \<Longrightarrow> reachable_inv cap s \<Longrightarrow> \<exists>s'. bar s r = Inr s' \<and> reachable_inv cap s'"
  by (auto simp: bar_def sell_step_def buy_step_def mark_step_def reachable_inv_def Let_def
      split: option.splits)

lemma simulate_reachable_inv:
  "0 < cap \<Longrightarrow> reachable_inv cap s \<Longrightarrow>
   \<exists>s'. simulate s rows = Inr s' \<and> reachable_inv cap s'"
proof (induction rows arbitrary: s)
  case Nil
  then show ?case by simp
next
  case (Cons r rs)
  from bar_reachable_inv[OF Cons.prems] obtain s1 where
    "bar s r = Inr s1" "reachable_inv cap s1" by blast
  with Cons.IH[OF Cons.prems(1), of s1] show ?case by simp
qed

lemma init_reachable_inv: "0 < cap \<Longrightarrow> reachable_inv cap (init_sim cap)"
  by (simp add: reachable_inv_def init_sim_def)

lemma bar_entry_date_bound:
  "bar s r = Inr s' \<Longrightarrow> (holding s \<longrightarrow> entry_date s \<noteq> None) \<Longrightarrow>
   (holding s' \<longrightarrow> entry_date s' \<noteq> None)"
  by (auto simp: bar_def sell_step_def buy_step_def mark_step_def Let_def
      split: option.splits if_splits sum.splits)

lemma simulate_entry_date_bound:
  "simulate s rows = Inr s' \<Longrightarrow> (holding s \<longrightarrow> entry_date s \<noteq> None) \<Longrightarrow>
   (holding s' \<longrightarrow> entry_date s' \<noteq> None)"
proof (induction rows arbitrary: s)
  case Nil
  then show ?case by simp
next
  case (Cons r rs)
  then show ?case by (auto split: sum.splits dest: bar_entry_date_bound)
qed


subsection \<open>Realised equity is the capital plus the profits of the trades\<close>




subsection \<open>Worked examples\<close>

lemma simulate_spec_example:
  "simulate (init_sim 10000) spec_example_rows =
   Inr \<lparr>holding = False, equity = 9999, entry_price = 0, entry_date = Some 0,
        trades = [\<lparr>t_entry_date = 0, t_exit_date = 2, t_entry_price = 10,
                   t_exit_price = 9, t_profit = -1\<rparr>],
        equity_curve = [10000, 10001, 9999, 9999, 9999], peak_equity = 10001,
        max_drawdown = 2 / 10001\<rparr>"
  by (simp add: spec_example_rows_def init_sim_def bar_def sell_step_def
      buy_step_def mark_step_def Let_def)


lemma simulate_reopen_rows:
  "simulate (init_sim 10000) reopen_rows =
   Inr \<lparr>holding = True, equity = 10000, entry_price = 10, entry_date = Some 0,
        trades = [], equity_curve = [10000], peak_equity = 10000, max_drawdown = 0\<rparr>"
  by (simp add: reopen_rows_def init_sim_def bar_def sell_step_def
      buy_step_def mark_step_def Let_def)

subsection \<open>Drawdown\<close>

text \<open>
  C5, as the specification states it, fails. The drawdown is a fraction of the running
  peak, but one unit is traded whatever the capital, so the marked value can fall below
  zero and the fraction can exceed one: with a capital of 10000, a buy at 20000 and a
  next close of 1, the reported maximum drawdown is 19999 / 10000.
\<close>

theorem max_drawdown_above_one:
  "\<not> isl (run_backtest crash_rows 10000) \<and>
   report_max_drawdown (projr (run_backtest crash_rows 10000)) = 19999 / 10000 \<and>
   1 < report_max_drawdown (projr (run_backtest crash_rows 10000))"
  by (simp add: run_backtest_def crash_rows_def init_sim_def bar_def sell_step_def
      buy_step_def mark_step_def close_final_def performance_def Let_def)

text \<open>
  C5, amended. With a positive initial capital, processing one more row \<open>r\<close> after any
  rows never raises, the peak becomes the larger of the old peak and the marked value of
  that row, the maximum drawdown becomes the larger of its old value and the fall of the
  marked value below that running peak as a fraction of the peak, it is never negative
  and never decreases, and it is at most one as long as no marked value on the equity
  curve is negative.
\<close>

theorem max_drawdown_running_peak:
  assumes cap: "0 < cap" and run: "simulate (init_sim cap) rows = Inr s"
  shows "\<exists>s'. bar s r = Inr s' \<and>
           peak_equity s' = max (peak_equity s) (last (equity_curve s')) \<and>
           max_drawdown s' =
             max (max_drawdown s) ((peak_equity s' - last (equity_curve s')) / peak_equity s') \<and>
           0 \<le> max_drawdown s \<and> max_drawdown s \<le> max_drawdown s' \<and>
           ((\<forall>v \<in> set (equity_curve s'). 0 \<le> v) \<longrightarrow> max_drawdown s' \<le> 1)"
proof -
  from simulate_reachable_inv[OF cap init_reachable_inv[OF cap], of rows] run
  have inv: "reachable_inv cap s" by auto
  from bar_reachable_inv[OF cap inv, of r] obtain s' where
    s': "bar s r = Inr s'" "reachable_inv cap s'" by blast
  have "peak_equity s' = max (peak_equity s) (last (equity_curve s'))"
    using s'(1) inv cap
    by (auto simp: bar_def sell_step_def buy_step_def mark_step_def Let_def reachable_inv_def
        split: option.splits if_splits sum.splits)
  moreover have "max_drawdown s' =
      max (max_drawdown s) ((peak_equity s' - last (equity_curve s')) / peak_equity s')"
    using s'(1)
    by (auto simp: bar_def sell_step_def buy_step_def mark_step_def Let_def
        split: option.splits if_splits sum.splits)
  moreover have "0 \<le> max_drawdown s"
    using inv by (simp add: reachable_inv_def)
  moreover have "max_drawdown s \<le> max_drawdown s'"
    using s'(1)
    by (auto simp: bar_def sell_step_def buy_step_def mark_step_def Let_def
        split: option.splits if_splits sum.splits)
  moreover have "(\<forall>v \<in> set (equity_curve s'). 0 \<le> v) \<longrightarrow> max_drawdown s' \<le> 1"
    using s'(2) by (simp add: reachable_inv_def)
  ultimately show ?thesis using s'(1) by blast
qed

theorem max_drawdown_running_peak_witness:
  "(0::real) < 10000 \<and>
   \<not> isl (simulate (init_sim 10000) spec_example_rows) \<and>
   (\<exists>s'. bar (projr (simulate (init_sim 10000) spec_example_rows)) reopen_row = Inr s' \<and>
      max_drawdown (projr (simulate (init_sim 10000) spec_example_rows)) \<le> max_drawdown s' \<and>
      (\<forall>v \<in> set (equity_curve s'). 0 \<le> v) \<and> max_drawdown s' \<le> 1)"
proof -
  let ?s = "projr (simulate (init_sim 10000) spec_example_rows)"
  have c: "(0::real) < 10000" by simp
  have h: "simulate (init_sim 10000) spec_example_rows = Inr ?s"
    by (simp add: simulate_spec_example)
  from max_drawdown_running_peak[OF c h, of reopen_row] obtain s' where
    s': "bar ?s reopen_row = Inr s'" "max_drawdown ?s \<le> max_drawdown s'"
      "(\<forall>v \<in> set (equity_curve s'). 0 \<le> v) \<longrightarrow> max_drawdown s' \<le> 1" by blast
  have "\<forall>v \<in> set (equity_curve s'). 0 \<le> v"
    using s'(1) by (auto simp: simulate_spec_example reopen_row_def bar_def sell_step_def
        buy_step_def mark_step_def Let_def)
  moreover have "\<not> isl (simulate (init_sim 10000) spec_example_rows)"
    by (simp add: simulate_spec_example)
  ultimately show ?thesis using s' by auto
qed

subsection \<open>Exit and entry on the same row\<close>

text \<open>
  C6. In a state reached by the loop in which a position is held, a row whose exit and
  entry signals are both true first sells at the close of the row, appending the trade
  realised on that row and leaving no position, and then buys again at the same close:
  the row ends with a position whose entry price is that close and whose entry date is
  the date of the row. With a positive capital the row is processed without raising.
\<close>

theorem same_bar_close_then_reopen:
  assumes run: "simulate (init_sim cap) rows = Inr s"
    and long: "holding s" and ex: "exit_signal r" and en: "entry_signal r"
  shows "\<exists>d s1. entry_date s = Some d \<and>
           sell_step s r = Inr s1 \<and> \<not> holding s1 \<and>
           trades s1 = trades s @
             [\<lparr>t_entry_date = d, t_exit_date = Date r, t_entry_price = entry_price s,
               t_exit_price = close r, t_profit = close r - entry_price s\<rparr>] \<and>
           equity s1 = equity s + (close r - entry_price s) \<and>
           bar s r = mark_step (buy_step s1 r) r \<and>
           holding (buy_step s1 r) \<and> entry_price (buy_step s1 r) = close r \<and>
           entry_date (buy_step s1 r) = Some (Date r) \<and>
           (\<forall>s'. bar s r = Inr s' \<longrightarrow>
              holding s' \<and> entry_price s' = close r \<and> entry_date s' = Some (Date r) \<and>
              trades s' = trades s1 \<and> equity s' = equity s1) \<and>
           (0 < cap \<longrightarrow> (\<exists>s'. bar s r = Inr s'))"
proof -
  have "holding s \<longrightarrow> entry_date s \<noteq> None"
    using simulate_entry_date_bound[OF run] by (simp add: init_sim_def)
  with long obtain d where d: "entry_date s = Some d" by auto
  have tot: "0 < cap \<longrightarrow> (\<exists>s'. bar s r = Inr s')"
  proof
    assume cap: "0 < cap"
    from simulate_reachable_inv[OF cap init_reachable_inv[OF cap], of rows] run
    have "reachable_inv cap s" by auto
    from bar_reachable_inv[OF cap this, of r] show "\<exists>s'. bar s r = Inr s'" by blast
  qed
  show ?thesis
    using d long ex en tot
    by (auto simp: bar_def sell_step_def buy_step_def mark_step_def Let_def split: if_splits)
qed

theorem same_bar_close_then_reopen_witness:
  "\<not> isl (simulate (init_sim 10000) reopen_rows) \<and>
   holding (projr (simulate (init_sim 10000) reopen_rows)) \<and>
   exit_signal reopen_row \<and> entry_signal reopen_row \<and> (0::real) < 10000 \<and>
   (\<exists>s'. bar (projr (simulate (init_sim 10000) reopen_rows)) reopen_row = Inr s' \<and>
      holding s' \<and> entry_price s' = 12 \<and> entry_date s' = Some 1 \<and>
      trades s' = [\<lparr>t_entry_date = 0, t_exit_date = 1, t_entry_price = 10,
                    t_exit_price = 12, t_profit = 2\<rparr>] \<and> equity s' = 10002)"
proof -
  let ?s = "projr (simulate (init_sim 10000) reopen_rows)"
  have h: "simulate (init_sim 10000) reopen_rows = Inr ?s"
    by (simp add: simulate_reopen_rows)
  have l: "holding ?s"
    by (simp add: simulate_reopen_rows)
  have x: "exit_signal reopen_row" and e: "entry_signal reopen_row"
    by (simp_all add: reopen_row_def)
  from same_bar_close_then_reopen[OF h l x e] obtain d s1 where
    f: "entry_date ?s = Some d"
      "sell_step ?s reopen_row = Inr s1"
      "trades s1 = trades ?s @
         [\<lparr>t_entry_date = d, t_exit_date = Date reopen_row, t_entry_price = entry_price ?s,
           t_exit_price = close reopen_row, t_profit = close reopen_row - entry_price ?s\<rparr>]"
      "equity s1 = equity ?s + (close reopen_row - entry_price ?s)"
      "\<forall>s'. bar ?s reopen_row = Inr s' \<longrightarrow>
         holding s' \<and> entry_price s' = close reopen_row \<and>
         entry_date s' = Some (Date reopen_row) \<and>
         trades s' = trades s1 \<and> equity s' = equity s1"
      "(0::real) < 10000 \<longrightarrow> (\<exists>s'. bar ?s reopen_row = Inr s')"
    by blast
  from f(6) obtain s' where s': "bar ?s reopen_row = Inr s'" by auto
  with f(5) have "holding s' \<and> entry_price s' = close reopen_row \<and>
      entry_date s' = Some (Date reopen_row) \<and> trades s' = trades s1 \<and> equity s' = equity s1"
    by blast
  moreover have "\<not> isl (simulate (init_sim 10000) reopen_rows)"
    by (simp add: simulate_reopen_rows)
  ultimately show ?thesis
    using f(1,3,4) s' l x e by (auto simp: simulate_reopen_rows reopen_row_def)
qed

subsection \<open>Final equity\<close>



section \<open>Properties of the generated code\<close>

subsection \<open>The text that visit returns\<close>

lemma param_strs_visit_all:
  "param_strs fstr ps = Inr ss \<Longrightarrow> \<exists>codes. visit_all fstr ps g = Inr (codes, g)"
proof (induction ps arbitrary: ss)
  case Nil then show ?case by simp
next
  case (Cons p ps)
  then show ?case by (cases p) (auto split: sum.splits)
qed
lemma visit_indicator_text:
  "(case visit fstr (Indicator name params) g of
      Inl err \<Rightarrow> expr_code fstr (Indicator name params) = Inl err
    | Inr (t, g') \<Rightarrow> \<exists>c. expr_code fstr (Indicator name params) = Inr c \<and> t = render fstr c)"
proof (cases "indicator_col_name fstr name params")
  case (Inl e) then show ?thesis by simp
next
  case (Inr col)
  then obtain ss where "param_strs fstr params = Inr ss"
    by (auto simp: indicator_col_name_def split: sum.splits)
  from param_strs_visit_all[OF this, of g] obtain codes where "visit_all fstr params g = Inr (codes, g)" by blast
  with Inr show ?thesis by simp
qed
lemma visit_text_all:
  "(case visit fstr e g of
      Inl err \<Rightarrow> expr_code fstr e = Inl err
    | Inr (t, g') \<Rightarrow> \<exists>c. expr_code fstr e = Inr c \<and> t = render fstr c)"
  "(case visit_all fstr es g of
      Inl err \<Rightarrow> expr_codes fstr es = Inl err
    | Inr (ts, g') \<Rightarrow> \<exists>cs. expr_codes fstr es = Inr cs \<and> ts = map (render fstr) cs)"
proof (induction fstr e g and fstr es g rule: visit_visit_all.induct)
  case (6 fstr name params g)
  show ?case by (rule visit_indicator_text)
qed (fastforce split: sum.splits simp: cross_code_def cross_text_def)+

lemma visit_succeeds_iff:
  "(\<exists>t g'. visit fstr e g = Inr (t, g')) \<longleftrightarrow> \<not> isl (expr_code fstr e)"
  using visit_text_all(1)[of fstr e g]
  by (cases "visit fstr e g"; cases "expr_code fstr e") auto

lemma render_cross_code: "render fstr (cross_code op1 op2 l r) = cross_text op1 op2 (render fstr l) (render fstr r)"
  by (simp add: cross_code_def cross_text_def)

subsection \<open>Crossings\<close>

lemma length_shift1: "length (shift1 xs) = length xs"
  by (simp add: shift1_def)

lemma nth_shift1: "i < length xs \<Longrightarrow> shift1 xs ! i = (if i = 0 then None else xs ! (i - 1))"
  by (cases i) (auto simp: shift1_def nth_butlast)
lemma eval_cross_columns:
  assumes "df l = Some xs" "df r = Some ys" "length xs = length ys"
    "comparison_of op1 = Some f1" "comparison_of op2 = Some f2"
  shows "eval df (cross_code op1 op2 (Col l) (Col r)) =
     Inr (BoolSeries (map2 (\<lambda>a b. a \<and> b) (map2 (nan_compare f1) xs ys)
        (map2 (nan_compare f2) (shift1 xs) (shift1 ys))))"
  using assms by (simp add: cross_code_def length_shift1)
lemma eval_cross_frame:
  "eval cross_frame (cross_code ''>'' ''<='' (Col ''left'') (Col ''right'')) =
     Inr (BoolSeries [False, True, False, True])"
  by (simp add: cross_frame_def cross_code_def comparison_of_def shift1_def)

text \<open>
  C4. For two columns of equal length without NaN, the text that visit returns for
  CrossOver of the two columns is the rendering of \<open>cross_code\<close>, and it evaluates to a
  boolean Series of the same length that is true at index \<open>i\<close> exactly when \<open>i \<ge> 1\<close>,
  \<open>left[i] > right[i]\<close> and \<open>left[i-1] \<le> right[i-1]\<close>; so it is false at index 0. For
  left = 1, 3, 2, 5 and right = 2, 2, 3, 3 the result is false, true, false, true.
\<close>

theorem crossover_semantics:
  assumes l: "df l = Some (map Some xs)" and r: "df r = Some (map Some ys)"
    and len: "length xs = length ys"
  shows "\<exists>bs. visit fstr (CrossOver (Identifier l) (Identifier r)) g =
             Inr (render fstr (cross_code ''>'' ''<='' (Col l) (Col r)), g) \<and>
           eval df (cross_code ''>'' ''<='' (Col l) (Col r)) = Inr (BoolSeries bs) \<and>
           length bs = length xs \<and>
           (\<forall>i < length xs. bs ! i \<longleftrightarrow> 1 \<le> i \<and> xs ! i > ys ! i \<and> xs ! (i - 1) \<le> ys ! (i - 1))"
proof -
  let ?xs = "map Some xs" and ?ys = "map Some ys"
  let ?bs = "map2 (\<lambda>a b. a \<and> b) (map2 (nan_compare (\<lambda>x y. x > y)) ?xs ?ys)
        (map2 (nan_compare (\<lambda>x y. x \<le> y)) (shift1 ?xs) (shift1 ?ys))"
  have e: "eval df (cross_code ''>'' ''<='' (Col l) (Col r)) = Inr (BoolSeries ?bs)"
    by (rule eval_cross_columns[OF l r]) (simp_all add: len comparison_of_def)
  have n: "length ?bs = length xs" by (simp add: len length_shift1)
  have "?bs ! i \<longleftrightarrow> 1 \<le> i \<and> xs ! i > ys ! i \<and> xs ! (i - 1) \<le> ys ! (i - 1)"
    if "i < length xs" for i
    using that len by (cases i) (simp_all add: length_shift1 nth_shift1)
  moreover have "visit fstr (CrossOver (Identifier l) (Identifier r)) g =
             Inr (render fstr (cross_code ''>'' ''<='' (Col l) (Col r)), g)"
    by (simp add: render_cross_code)
  ultimately show ?thesis using e n by blast
qed
theorem crossover_semantics_witness:
  "cross_frame ''left'' = Some (map Some [1, 3, 2, 5]) \<and>
   cross_frame ''right'' = Some (map Some [2, 2, 3, 3]) \<and>
   length [1, 3, 2, 5 :: real] = length [2, 2, 3, 3 :: real] \<and>
   eval cross_frame (cross_code ''>'' ''<='' (Col ''left'') (Col ''right'')) =
     Inr (BoolSeries [False, True, False, True])"
proof -
  have l: "cross_frame ''left'' = Some (map Some [1, 3, 2, 5])"
    and r: "cross_frame ''right'' = Some (map Some [2, 2, 3, 3])"
    by (simp_all add: cross_frame_def)
  have n: "length [1, 3, 2, 5 :: real] = length [2, 2, 3, 3 :: real]" by simp
  from crossover_semantics[OF l r n] obtain bs where
    bs: "eval cross_frame (cross_code ''>'' ''<='' (Col ''left'') (Col ''right'')) = Inr (BoolSeries bs)"
      "length bs = length [1, 3, 2, 5 :: real]"
      "\<forall>i < length [1, 3, 2, 5 :: real]. bs ! i \<longleftrightarrow>
         1 \<le> i \<and> [1, 3, 2, 5 :: real] ! i > [2, 2, 3, 3] ! i \<and>
         [1, 3, 2, 5 :: real] ! (i - 1) \<le> [2, 2, 3, 3] ! (i - 1)"
    by blast
  have "bs = [False, True, False, True]"
  proof (rule nth_equalityI)
    show "length bs = length [False, True, False, True]" using bs(2) by simp
  next
    fix i assume "i < length bs"
    then have i: "i < 4" using bs(2) by simp
    then consider "i = 0" | "i = 1" | "i = 2" | "i = 3" by linarith
    then show "bs ! i = [False, True, False, True] ! i"
      using bs(3) by cases (simp_all add: nth_Cons')
  qed
  with bs(1) l r show ?thesis by simp
qed

text \<open>
  C8. visit returns the same text for Cross as for CrossOver whatever the operands and
  the state, so the expression evaluated is the same; on two columns of equal length
  without NaN both evaluate to one and the same boolean Series.
\<close>

theorem cross_is_crossover:
  "visit fstr (Cross left right) g = visit fstr (CrossOver left right) g \<and>
   expr_code fstr (Cross left right) = expr_code fstr (CrossOver left right) \<and>
   (df l = Some (map Some xs) \<and> df r = Some (map Some ys) \<and> length xs = length ys \<longrightarrow>
      (\<exists>c bs. expr_code fstr (Cross (Identifier l) (Identifier r)) = Inr c \<and>
         expr_code fstr (CrossOver (Identifier l) (Identifier r)) = Inr c \<and>
         eval df c = Inr (BoolSeries bs) \<and> length bs = length xs))"
proof -
  have "\<exists>c bs. expr_code fstr (Cross (Identifier l) (Identifier r)) = Inr c \<and>
         expr_code fstr (CrossOver (Identifier l) (Identifier r)) = Inr c \<and>
         eval df c = Inr (BoolSeries bs) \<and> length bs = length xs"
    if h: "df l = Some (map Some xs)" "df r = Some (map Some ys)" "length xs = length ys"
  proof -
    have "eval df (cross_code ''>'' ''<='' (Col l) (Col r)) =
        Inr (BoolSeries (map2 (\<lambda>a b. a \<and> b)
          (map2 (nan_compare (\<lambda>x y. x > y)) (map Some xs) (map Some ys))
          (map2 (nan_compare (\<lambda>x y. x \<le> y)) (shift1 (map Some xs)) (shift1 (map Some ys)))))"
      by (rule eval_cross_columns[OF h(1,2)]) (simp_all add: h(3) comparison_of_def)
    then show ?thesis by (simp add: h(3) length_shift1)
  qed
  then show ?thesis by simp
qed

theorem cross_is_crossover_witness:
  "cross_frame ''left'' = Some (map Some [1, 3, 2, 5]) \<and>
   cross_frame ''right'' = Some (map Some [2, 2, 3, 3]) \<and>
   length [1, 3, 2, 5 :: real] = length [2, 2, 3, 3 :: real] \<and>
   (\<exists>c. expr_code str_whole_float (Cross (Identifier ''left'') (Identifier ''right'')) = Inr c \<and>
      expr_code str_whole_float (CrossOver (Identifier ''left'') (Identifier ''right'')) = Inr c \<and>
      eval cross_frame c = Inr (BoolSeries [False, True, False, True]))"
proof -
  have l: "cross_frame ''left'' = Some (map Some [1, 3, 2, 5])"
    and r: "cross_frame ''right'' = Some (map Some [2, 2, 3, 3])"
    by (simp_all add: cross_frame_def)
  have n: "length [1, 3, 2, 5 :: real] = length [2, 2, 3, 3 :: real]" by simp
  from cross_is_crossover[of str_whole_float "Identifier ''left''" "Identifier ''right''"
      fresh_gen cross_frame "''left''" "[1, 3, 2, 5]" "''right''" "[2, 2, 3, 3]"] l r n
  obtain c bs where
    c: "expr_code str_whole_float (Cross (Identifier ''left'') (Identifier ''right'')) = Inr c"
      "expr_code str_whole_float (CrossOver (Identifier ''left'') (Identifier ''right'')) = Inr c"
      "eval cross_frame c = Inr (BoolSeries bs)"
    by blast
  from c(2) have "c = cross_code ''>'' ''<='' (Col ''left'') (Col ''right'')" by simp
  with c(3) eval_cross_frame have "bs = [False, True, False, True]" by simp
  with c l r show ?thesis by simp
qed

subsection \<open>The last rule of a kind wins\<close>


lemma visit_rules_succeeds_iff:
  "(\<exists>out. visit_rules fstr rules acc = Inr out) \<longleftrightarrow>
   (\<forall>r \<in> set rules. \<not> isl (expr_code fstr (condition r)))"
proof (induction rules arbitrary: acc)
  case Nil then show ?case by (cases acc) auto
next
  case (Cons r rules)
  obtain g en ex where acc: "acc = (g, en, ex)" using prod_cases3 by blast
  show ?case
  proof (cases "isl (expr_code fstr (condition r))")
    case True
    with visit_succeeds_iff[of fstr "condition r" g]
    have "\<exists>e. visit fstr (condition r) g = Inl e"
      by (cases "visit fstr (condition r) g") auto
    with True acc show ?thesis by (cases r) auto
  next
    case False
    with visit_succeeds_iff[of fstr "condition r" g]
    obtain t g1 where "visit fstr (condition r) g = Inr (t, g1)" by blast
    with False acc Cons.IH show ?thesis by (cases r) auto
  qed
qed



subsection \<open>Memoised indicator columns\<close>

lemma memoised_append:
  "memoised key cache (xs @ ys) = memoised key cache xs @ memoised key (cache \<union> key ` set xs) ys"
  by (induction xs arbitrary: cache) (auto simp: insert_absorb)

lemma memoised_keys:
  "key ` set (memoised key cache xs) = key ` set xs - cache"
  by (induction xs arbitrary: cache) auto

lemma memoised_distinct: "distinct (map key (memoised key cache xs))"
proof (induction xs arbitrary: cache)
  case Nil
  then show ?case by simp
next
  case (Cons x xs)
  have "key x \<notin> key ` set (memoised key (insert (key x) cache) xs)"
    by (simp only: memoised_keys) simp
  with Cons show ?case by simp
qed

lemma count_list_distinct: "distinct xs \<Longrightarrow> x \<in> set xs \<Longrightarrow> count_list xs x = 1"
  by (induction xs) auto

lemma memoised_once:
  assumes "x \<in> set xs"
  shows "count_list (map key (memoised key {} xs)) (key x) = 1"
proof -
  have "key x \<in> key ` set (memoised key {} xs)"
    using assms by (simp only: memoised_keys) simp
  then have "key x \<in> set (map key (memoised key {} xs))" by simp
  with memoised_distinct[of key "{}" xs] show ?thesis
    by (rule count_list_distinct)
qed

lemma param_strs_codes:
  "param_strs fstr ps = Inr ss \<Longrightarrow>
   \<exists>cs. expr_codes fstr ps = Inr cs \<and> visit_all fstr ps g = Inr (map (render fstr) cs, g)"
proof (induction ps arbitrary: ss)
  case Nil then show ?case by simp
next
  case (Cons p ps)
  then show ?case by (cases p) (auto split: sum.splits)
qed
lemma memo_step_refl: "memo_step fstr [] g g"
  by (simp add: memo_step_def)

lemma memo_step_trans:
  "memo_step fstr xs g g1 \<Longrightarrow> memo_step fstr ys g1 g2 \<Longrightarrow> memo_step fstr (xs @ ys) g g2"
  by (simp add: memo_step_def memoised_append Un_assoc image_Un)

lemma visit_indicator_memo:
  assumes "visit fstr (Indicator name params) g = Inr (t, g')"
  shows "memo_step fstr [(name, params)] g g'"
proof -
  from assms obtain col where col: "indicator_col_name fstr name params = Inr col"
    by (cases "indicator_col_name fstr name params") auto
  then obtain ss where "param_strs fstr params = Inr ss"
    by (auto simp: indicator_col_name_def split: sum.splits)
  from param_strs_codes[OF this, of g] obtain cs where
    cs: "expr_codes fstr params = Inr cs" "visit_all fstr params g = Inr (map (render fstr) cs, g)"
    by blast
  from assms col cs show ?thesis
    by (auto simp: memo_step_def call_key_def call_line_def split: if_splits)
qed

lemma visit_two_memo:
  assumes v: "(case visit fstr l g of Inl e \<Rightarrow> Inl e
                | Inr (lc, g1) \<Rightarrow> (case visit fstr r g1 of Inl e \<Rightarrow> Inl e
                    | Inr (rc, g2) \<Rightarrow> Inr (f lc rc, g2))) = Inr (t, g')"
    and ih1: "\<And>t g'. visit fstr l g = Inr (t, g') \<Longrightarrow> memo_step fstr (indicator_calls l) g g'"
    and ih2: "\<And>lc g1 t g'. visit fstr l g = Inr (lc, g1) \<Longrightarrow> visit fstr r g1 = Inr (t, g') \<Longrightarrow>
                memo_step fstr (indicator_calls r) g1 g'"
  shows "memo_step fstr (indicator_calls l @ indicator_calls r) g g'"
proof -
  from v obtain lc g1 rc where l: "visit fstr l g = Inr (lc, g1)"
    and r: "visit fstr r g1 = Inr (rc, g')"
    by (auto split: sum.splits)
  from memo_step_trans[OF ih1[OF l] ih2[OF l r]] show ?thesis .
qed

lemma visit_memo:
  "visit fstr e g = Inr (t, g') \<Longrightarrow> memo_step fstr (indicator_calls e) g g'"
  "visit_all fstr es g = Inr (ts, g') \<Longrightarrow> memo_step fstr (indicator_calls_all es) g g'"
proof (induction fstr e g and fstr es g arbitrary: t g' and ts g' rule: visit_visit_all.induct)
  case (1 fstr operator operands g)
  from 1(2) obtain cs where "visit_all fstr operands g = Inr (cs, g')"
    by (auto split: sum.splits)
  from 1(1)[OF this] show ?case by simp
next
  case (2 fstr operator left right g)
  have "memo_step fstr (indicator_calls left @ indicator_calls right) g g'"
    by (rule visit_two_memo[where f = "\<lambda>lc rc. ''('' @ lc @ '' '' @ operator @ '' '' @ rc @ '')''"])
      (use 2 in auto)
  then show ?case by simp
next
  case (3 fstr left right g)
  have "memo_step fstr (indicator_calls left @ indicator_calls right) g g'"
    by (rule visit_two_memo[where f = "cross_text ''>'' ''<=''"]) (use 3 in auto)
  then show ?case by simp
next
  case (4 fstr left right g)
  have "memo_step fstr (indicator_calls left @ indicator_calls right) g g'"
    by (rule visit_two_memo[where f = "cross_text ''>'' ''<=''"]) (use 4 in auto)
  then show ?case by simp
next
  case (5 fstr left right g)
  have "memo_step fstr (indicator_calls left @ indicator_calls right) g g'"
    by (rule visit_two_memo[where f = "cross_text ''<'' ''>=''"]) (use 5 in auto)
  then show ?case by simp
next
  case (6 fstr name params g)
  from visit_indicator_memo[OF 6(2)] show ?case by simp
next
  case (7 fstr name g)
  then show ?case by (simp add: memo_step_def)
next
  case (8 fstr v g)
  then show ?case by (simp add: memo_step_def)
next
  case (9 fstr g)
  then show ?case by simp
next
  case (10 fstr g)
  then show ?case by (simp add: memo_step_def)
next
  case (11 fstr x xs g)
  from 11(3) obtain c g1 cs where x: "visit fstr x g = Inr (c, g1)"
    and xs: "visit_all fstr xs g1 = Inr (cs, g')"
    by (auto split: sum.splits)
  from memo_step_trans[OF 11(1)[OF x] 11(2)[OF x _ xs]] show ?case by simp
qed

lemma visit_rules_memo:
  "visit_rules fstr rules (g, en, ex) = Inr (g', en', ex') \<Longrightarrow> memo_step fstr (rule_calls rules) g g'"
proof (induction rules arbitrary: g en ex)
  case Nil
  then show ?case by (simp add: rule_calls_def memo_step_def)
next
  case (Cons r rules)
  show ?case
  proof (cases r)
    case (EntryRule c)
    with Cons.prems obtain t g1 where v: "visit fstr c g = Inr (t, g1)"
      and rest: "visit_rules fstr rules (g1, t, ex) = Inr (g', en', ex')"
      by (auto split: sum.splits)
    from memo_step_trans[OF visit_memo(1)[OF v] Cons.IH[OF rest]] EntryRule
    show ?thesis by (simp add: rule_calls_def)
  next
    case (ExitRule c)
    with Cons.prems obtain t g1 where v: "visit fstr c g = Inr (t, g1)"
      and rest: "visit_rules fstr rules (g1, en, t) = Inr (g', en', ex')"
      by (auto split: sum.splits)
    from memo_step_trans[OF visit_memo(1)[OF v] Cons.IH[OF rest]] ExitRule
    show ?thesis by (simp add: rule_calls_def)
  qed
qed

lemma calls_have_columns:
  "\<not> isl (expr_code fstr e) \<Longrightarrow>
   \<forall>c \<in> set (indicator_calls e). \<not> isl (indicator_col_name fstr (fst c) (snd c))"
  "\<not> isl (expr_codes fstr es) \<Longrightarrow>
   \<forall>c \<in> set (indicator_calls_all es). \<not> isl (indicator_col_name fstr (fst c) (snd c))"
  by (induction fstr e and fstr es rule: expr_code_expr_codes.induct)
    (auto split: sum.splits)

lemma rule_calls_have_columns:
  assumes "\<forall>r \<in> set rules. \<not> isl (expr_code fstr (condition r))"
    and "c \<in> set (rule_calls rules)"
  shows "expr_code fstr (Indicator (fst c) (snd c)) = Inr (Col (call_key fstr c))"
proof -
  from assms(2) obtain r where r: "r \<in> set rules" "c \<in> set (indicator_calls (condition r))"
    by (auto simp: rule_calls_def)
  with assms(1) calls_have_columns(1)[of fstr "condition r"]
  have "\<not> isl (indicator_col_name fstr (fst c) (snd c))" by blast
  then show ?thesis
    by (cases "indicator_col_name fstr (fst c) (snd c)") (auto simp: call_key_def)
qed
lemma digits_of_20: "digits_of 20 = ''20''"
  by (simp add: digits_of.simps)

lemma str_whole_float_20: "str_whole_float 20 = ''20.0''"
  by (simp add: str_whole_float_def digits_of_20)

lemma generate_sma_rules:
  "generate str_whole_float (Strategy sma_rules) =
     Inr \<lparr>indicators =
            df_col ''sma_close_20.0'' @ '' = indicators.sma('' @ df_col ''close'' @ '', 20.0)'',
          entry = ''('' @ df_col ''close'' @ '' > '' @ df_col ''sma_close_20.0'' @ '')'',
          exit = ''('' @ df_col ''close'' @ '' < '' @ df_col ''sma_close_20.0'' @ '')''\<rparr>"
  by (simp add: sma_rules_def fresh_gen_def indicator_col_name_def indicator_line_def
      lower_def lower_char_def str_whole_float_20 df_col_def)

lemma generate_collision_rules:
  "generate str_whole_float (Strategy collision_rules) =
     Inr \<lparr>indicators =
            df_col ''rsi_a_b'' @ '' = indicators.rsi('' @ df_col ''a_b'' @ '')'',
          entry = ''('' @ df_col ''rsi_a_b'' @ '' > '' @ df_col ''x'' @ '')'',
          exit = ''('' @ df_col ''rsi_a_b'' @ '' > '' @ df_col ''rsi_a_b'' @ '')''\<rparr>"
  by (simp add: collision_rules_def fresh_gen_def indicator_col_name_def indicator_line_def
      lower_def lower_char_def df_col_def)

text \<open>
  C7, as the specification states it, fails: the cache is keyed by the column name, the
  lower-cased indicator name and the texts of the parameters joined by underscores, and
  not by the name and the parameter list. \<open>RSI(a, b)\<close> and \<open>RSI(a_b)\<close> share the column
  \<open>rsi_a_b\<close>: in \<open>collision_rules\<close> the call \<open>RSI(a, b)\<close> occurs twice, and the only
  statement generated is the one that computes \<open>RSI(a_b)\<close>.
\<close>

theorem indicator_cache_key_collision:
  "count_list (rule_calls collision_rules) (''RSI'', [Identifier ''a'', Identifier ''b'']) = 2 \<and>
   map_sum id indicators (generate str_whole_float (Strategy collision_rules)) =
     Inr (df_col ''rsi_a_b'' @ '' = indicators.rsi('' @ df_col ''a_b'' @ '')'') \<and>
   call_line str_whole_float (''RSI'', [Identifier ''a'', Identifier ''b'']) =
     df_col ''rsi_a_b'' @ '' = indicators.rsi('' @ df_col ''a'' @ '', '' @ df_col ''b'' @ '')'' \<and>
   call_line str_whole_float (''RSI'', [Identifier ''a'', Identifier ''b'']) \<noteq>
     df_col ''rsi_a_b'' @ '' = indicators.rsi('' @ df_col ''a_b'' @ '')''"
  by (simp add: generate_collision_rules)
    (simp add: collision_rules_def rule_calls_def call_line_def call_key_def
      indicator_col_name_def indicator_line_def lower_def lower_char_def df_col_def
      fresh_gen_def)

text \<open>
  C7, amended. Whenever generate returns, the indicator code consists of one statement
  for each column name among the indicator calls of the rules, namely the statement of
  the first call with that column name in visiting order: no two statements compute the
  same column, every call has exactly one statement for its column, and every reference
  to the call is the text of that column.
\<close>

theorem indicator_computed_once_per_column:
  "\<forall>res. generate fstr (Strategy rules) = Inr res \<longrightarrow>
     indicators res =
       join [CHR 0x0A]
         (map (call_line fstr) (memoised (call_key fstr) {} (rule_calls rules))) \<and>
     distinct (map (call_key fstr) (memoised (call_key fstr) {} (rule_calls rules))) \<and>
     (\<forall>c \<in> set (rule_calls rules).
        count_list (map (call_key fstr) (memoised (call_key fstr) {} (rule_calls rules)))
          (call_key fstr c) = 1 \<and>
        expr_code fstr (Indicator (fst c) (snd c)) = Inr (Col (call_key fstr c)))"
proof (intro allI impI)
  fix res
  assume gen: "generate fstr (Strategy rules) = Inr res"
  then obtain g en ex where
    v: "visit_rules fstr rules (fresh_gen, ''False'', ''False'') = Inr (g, en, ex)"
    and res: "indicators res = join [CHR 0x0A] (indicator_code g)"
    by (auto split: sum.splits)
  from visit_rules_memo[OF v]
  have code: "indicator_code g =
      map (call_line fstr) (memoised (call_key fstr) {} (rule_calls rules))"
    by (simp add: memo_step_def fresh_gen_def)
  have ok: "\<forall>r \<in> set rules. \<not> isl (expr_code fstr (condition r))"
    using visit_rules_succeeds_iff[of fstr rules "(fresh_gen, ''False'', ''False'')"] v by auto
  have calls: "expr_code fstr (Indicator (fst c) (snd c)) = Inr (Col (call_key fstr c))"
    if "c \<in> set (rule_calls rules)" for c
    using rule_calls_have_columns[OF ok that] .
  show "indicators res =
       join [CHR 0x0A]
         (map (call_line fstr) (memoised (call_key fstr) {} (rule_calls rules))) \<and>
     distinct (map (call_key fstr) (memoised (call_key fstr) {} (rule_calls rules))) \<and>
     (\<forall>c \<in> set (rule_calls rules).
        count_list (map (call_key fstr) (memoised (call_key fstr) {} (rule_calls rules)))
          (call_key fstr c) = 1 \<and>
        expr_code fstr (Indicator (fst c) (snd c)) = Inr (Col (call_key fstr c)))"
    using res code memoised_distinct[of "call_key fstr" "{}" "rule_calls rules"]
      memoised_once[of _ "rule_calls rules" "call_key fstr"] calls by auto
qed

theorem indicator_computed_once_per_column_witness:
  "(\<exists>res. generate str_whole_float (Strategy sma_rules) = Inr res \<and>
      indicators res =
        df_col ''sma_close_20.0'' @ '' = indicators.sma('' @ df_col ''close'' @ '', 20.0)'') \<and>
   count_list (rule_calls sma_rules) (''SMA'', [Identifier ''close'', Number 20]) = 2 \<and>
   call_key str_whole_float (''SMA'', [Identifier ''close'', Number 20]) = ''sma_close_20.0'' \<and>
   count_list
     (map (call_key str_whole_float)
        (memoised (call_key str_whole_float) {} (rule_calls sma_rules)))
     ''sma_close_20.0'' = 1"
proof -
  let ?c = "(''SMA'', [Identifier ''close'', Number 20])"
  have two: "count_list (rule_calls sma_rules) ?c = 2"
    by (simp add: sma_rules_def rule_calls_def)
  then have mem: "?c \<in> set (rule_calls sma_rules)"
    using count_list_0_iff[of "rule_calls sma_rules" ?c] by auto
  have key: "call_key str_whole_float ?c = ''sma_close_20.0''"
    by (simp add: call_key_def indicator_col_name_def lower_def lower_char_def
        str_whole_float_20)
  from indicator_computed_once_per_column[of str_whole_float sma_rules]
    generate_sma_rules mem
  have "count_list
     (map (call_key str_whole_float)
        (memoised (call_key str_whole_float) {} (rule_calls sma_rules)))
     (call_key str_whole_float ?c) = 1"
    by blast
  with two key generate_sma_rules show ?thesis by simp
qed

section \<open>Properties of the parser\<close>

subsection \<open>Every terminal consumes input\<close>











subsection \<open>Every rule consumes input\<close>






lemma lift_callback_returns: "lift_callback f items rest \<noteq> None"
  by (auto simp: lift_callback_def split: sum.splits)




subsection \<open>The counter never runs out\<close>










subsection \<open>Chains of one operator\<close>

lemma and_expr_unpack:
  "length items \<noteq> 1 \<Longrightarrow> length items \<noteq> 3 \<Longrightarrow> and_expr items = Inl ValueError"
  by (induction items rule: and_expr.induct) auto

lemma or_expr_unpack:
  "length items \<noteq> 1 \<Longrightarrow> length items \<noteq> 3 \<Longrightarrow> or_expr items = Inl ValueError"
  by (induction items rule: or_expr.induct) auto

lemma or_expr_three: "length items = 3 \<Longrightarrow> or_expr items = Inl TypeError"
  by (induction items rule: or_expr.induct) auto

lemma parse_two_terms:
  "parse_dsl ''ENTRY: close > 1 AND close > 2'' =
     Some (Some (Strategy [EntryRule (LogicalOperation ''AND''
       [Comparison ''>'' (Identifier ''close'') (Number 1),
        Comparison ''>'' (Identifier ''close'') (Number 2)])]), [])"
  by code_simp

lemma parse_demo_text:
  "parse_dsl demo_text =
     Some (Some (Strategy
       [EntryRule (CrossOver (Indicator ''SMA'' [Identifier ''close'', Number 10])
          (Indicator ''SMA'' [Identifier ''close'', Number 30])),
        ExitRule (CrossUnder (Indicator ''SMA'' [Identifier ''close'', Number 30])
          (Indicator ''SMA'' [Identifier ''close'', Number 10]))]), [])"
  by code_simp

lemma parse_trailing_garbage:
  "parse_dsl ''ENTRY: close > 1 garbage'' =
     Some (None, [Error_parsing_DSL (UnexpectedInput ''garbage'')])"
  by code_simp

text \<open>
  C1 says that a chain of three or more terms joined by one operator parses to a single
  LogicalOperation that holds all terms in order. The code does not do that: and_expr
  unpacks its children into left, op, right, but for a chain of three terms Lark passes
  all five children at once, so the unpacking raises ValueError, which parse_dsl
  catches. On \<open>ENTRY: close > 1 AND close > 2 AND close > 3\<close> the result is None.
\<close>

theorem and_chain_is_rejected:
  "parse_dsl and_chain_text = Some (None, [Error_parsing_DSL ValueError])"
  by code_simp

text \<open>
  C2 says that \<open>a AND b OR c\<close> parses to OR(AND(a, b), c). The code does not do that:
  or_expr calls the constructor of LogicalOperation with the operator and the two
  operands as three arguments, where it takes the operator and one list, so it raises
  TypeError, which parse_dsl catches. On \<open>ENTRY: close > 1 AND close > 2 OR close > 3\<close>
  the result is None.
\<close>

theorem and_or_is_rejected:
  "parse_dsl and_or_text = Some (None, [Error_parsing_DSL TypeError])"
  by code_simp



end
